theory Spec2Isabelle
  imports Main "HOL-Library.Word" "HOL-Library.List_Lexorder"
begin

unbundle bit_operations_syntax

section \<open>JavaScript values\<close>

text \<open>
  The program under study is \<^verbatim>\<open>src/sms.ts\<close>, the class \<^verbatim>\<open>AliSMS\<close>. It is TypeScript: a
  string is a sequence of 16-bit code units, compared and sorted unit by unit, and an
  object is a table from property names to values with a fixed enumeration order.
\<close>

type_synonym code_unit = "16 word"
type_synonym jsstring = "code_unit list"
type_synonym octet = "8 word"

text \<open>An ASCII literal of the source, as the code units it denotes.\<close>

definition js :: "string \<Rightarrow> jsstring" where
  "js s = map (\<lambda>c. of_nat (of_char c)) s"

text \<open>
  The values the program handles, both as request parameters (\<^verbatim>\<open>Record<string, unknown>\<close>)
  and as parsed JSON. An object is the list of its own properties in enumeration order,
  with pairwise distinct names and the prototype of a plain object; no value is a function.
  \<open>Num\<close> carries the numbers that are safe integers, of magnitude below \<open>2^53\<close> (page
  size, page number, nonce, counts, status codes); fractions, non-finite numbers and
  larger integers, which JavaScript rounds, are outside the model.
\<close>

datatype jsval =
    Undefined
  | Null
  | Bool bool
  | Num int
  | Str jsstring
  | Arr "jsval list"
  | Obj "(jsstring \<times> jsval) list"

text \<open>
  The exceptions of the program. \<open>Unmodelled\<close> is not one of them: it is the outcome of
  a step on a value the model does not cover (printing a \<open>Num\<close> beyond the safe
  integers).
\<close>

datatype error = URIError | TypeError | TransportFailure | Unmodelled

definition and_then :: "error + 'a \<Rightarrow> ('a \<Rightarrow> error + 'b) \<Rightarrow> error + 'b" where
  "and_then r f = (case r of Inl e \<Rightarrow> Inl e | Inr x \<Rightarrow> f x)"

text \<open>
  Joining strings with a separator, as \<^verbatim>\<open>Array.prototype.join\<close> does.
\<close>

fun join :: "jsstring \<Rightarrow> jsstring list \<Rightarrow> jsstring" where
  "join sep [] = []"
| "join sep [x] = x"
| "join sep (x # y # ys) = x @ sep @ join sep (y # ys)"

text \<open>
  \<^verbatim>\<open>Object.keys(o)\<close> and the property read \<^verbatim>\<open>o[k]\<close> on an object given by its property
  list (a name that is not there reads as \<^verbatim>\<open>undefined\<close>).
\<close>

definition Object_keys :: "(jsstring \<times> jsval) list \<Rightarrow> jsstring list" where
  "Object_keys ps = map fst ps"

definition object_get :: "(jsstring \<times> jsval) list \<Rightarrow> jsstring \<Rightarrow> jsval" where
  "object_get ps k = (case map_of ps k of None \<Rightarrow> Undefined | Some v \<Rightarrow> v)"

text \<open>
  \<^verbatim>\<open>String(n)\<close> for a number: the decimal digits of a safe integer. Beyond \<open>2^53\<close> the
  digits JavaScript prints are those of a rounded value, and from \<open>10^21\<close> on it prints
  an exponent; the model stops there.
\<close>

function decimal :: "nat \<Rightarrow> jsstring" where
  "decimal n = (if n < 10 then [of_nat (48 + n)] else decimal (n div 10) @ [of_nat (48 + n mod 10)])"
  by pat_completeness auto
termination
  by (relation "measure id") auto

declare decimal.simps [simp del]

definition NumberToString :: "int \<Rightarrow> error + jsstring" where
  "NumberToString n =
     (if \<bar>n\<bar> < 9007199254740992 then
        Inr (if n < 0 then js ''-'' @ decimal (nat (- n)) else decimal (nat n))
      else Inl Unmodelled)"

text \<open>
  \<^verbatim>\<open>String(v)\<close>. An array is its elements joined by commas, where \<^verbatim>\<open>undefined\<close> and
  \<^verbatim>\<open>null\<close> elements give the empty string and the others are converted in order. A
  plain object is \<^verbatim>\<open>[object Object]\<close>, by the \<^verbatim>\<open>toString\<close> it inherits. An object with
  a property \<^verbatim>\<open>toString\<close> of its own has a value there that cannot be called, and
  \<^verbatim>\<open>valueOf\<close> gives no string either (its own cannot be called, the inherited one returns
  the object): the conversion raises TypeError.
\<close>

fun js_String :: "jsval \<Rightarrow> error + jsstring"
  and js_String_elements :: "jsval list \<Rightarrow> error + jsstring list" where
  "js_String Undefined = Inr (js ''undefined'')"
| "js_String Null = Inr (js ''null'')"
| "js_String (Bool b) = Inr (if b then js ''true'' else js ''false'')"
| "js_String (Num n) = NumberToString n"
| "js_String (Str s) = Inr s"
| "js_String (Arr xs) =
     (case js_String_elements xs of
        Inl e \<Rightarrow> Inl e
      | Inr strs \<Rightarrow> Inr (join (js '','') strs))"
| "js_String (Obj ps) =
     (if js ''toString'' \<in> set (Object_keys ps) then Inl TypeError
      else Inr (js ''[object Object]''))"
| "js_String_elements [] = Inr []"
| "js_String_elements (x # xs) =
     (case (case x of Undefined \<Rightarrow> Inr [] | Null \<Rightarrow> Inr [] | _ \<Rightarrow> js_String x) of
        Inl e \<Rightarrow> Inl e
      | Inr str \<Rightarrow>
          (case js_String_elements xs of
             Inl e \<Rightarrow> Inl e
           | Inr strs \<Rightarrow> Inr (str # strs)))"

section \<open>encodeURIComponent\<close>

text \<open>
  The built-in of ECMAScript (sec. 19.2.6, operation Encode): letters, digits and the
  marks \<^verbatim>\<open>- _ . ! ~ * ' ( )\<close> are copied; every other code point is written as the
  octets of its UTF-8 form, each as \<^verbatim>\<open>%XX\<close> in upper-case hexadecimal; a surrogate that
  is not part of a pair raises URIError.
\<close>

definition uriAlpha :: "code_unit \<Rightarrow> bool" where
  "uriAlpha c = ((0x41 \<le> c \<and> c \<le> 0x5A) \<or> (0x61 \<le> c \<and> c \<le> 0x7A))"

definition DecimalDigit :: "code_unit \<Rightarrow> bool" where
  "DecimalDigit c = (0x30 \<le> c \<and> c \<le> 0x39)"

definition uriMark :: "code_unit \<Rightarrow> bool" where
  "uriMark c = (c \<in> set [0x2D, 0x5F, 0x2E, 0x21, 0x7E, 0x2A, 0x27, 0x28, 0x29])"

definition uriUnescaped :: "code_unit \<Rightarrow> bool" where
  "uriUnescaped c = (uriAlpha c \<or> DecimalDigit c \<or> uriMark c)"

definition is_lead :: "code_unit \<Rightarrow> bool" where
  "is_lead c = (0xD800 \<le> c \<and> c \<le> 0xDBFF)"

definition is_trail :: "code_unit \<Rightarrow> bool" where
  "is_trail c = (0xDC00 \<le> c \<and> c \<le> 0xDFFF)"

definition pair_code_point :: "code_unit \<Rightarrow> code_unit \<Rightarrow> nat" where
  "pair_code_point lead trail = (unat lead - 0xD800) * 0x400 + (unat trail - 0xDC00) + 0x10000"

definition utf8_octets :: "nat \<Rightarrow> octet list" where
  "utf8_octets cp =
     (if cp < 0x80 then [of_nat cp]
      else if cp < 0x800 then [of_nat (0xC0 + cp div 0x40), of_nat (0x80 + cp mod 0x40)]
      else if cp < 0x10000 then
        [of_nat (0xE0 + cp div 0x1000), of_nat (0x80 + cp div 0x40 mod 0x40),
         of_nat (0x80 + cp mod 0x40)]
      else
        [of_nat (0xF0 + cp div 0x40000), of_nat (0x80 + cp div 0x1000 mod 0x40),
         of_nat (0x80 + cp div 0x40 mod 0x40), of_nat (0x80 + cp mod 0x40)])"

definition hex_digit :: "nat \<Rightarrow> code_unit" where
  "hex_digit n = (if n < 10 then of_nat (0x30 + n) else of_nat (0x41 + (n - 10)))"

definition percent_octet :: "octet \<Rightarrow> jsstring" where
  "percent_octet b = [0x25, hex_digit (unat b div 16), hex_digit (unat b mod 16)]"

definition percent_code_point :: "nat \<Rightarrow> jsstring" where
  "percent_code_point cp = concat (map percent_octet (utf8_octets cp))"

fun encodeURIComponent :: "jsstring \<Rightarrow> error + jsstring" where
  "encodeURIComponent [] = Inr []"
| "encodeURIComponent (c # cs) =
     (if uriUnescaped c then
        (case encodeURIComponent cs of Inl e \<Rightarrow> Inl e | Inr r \<Rightarrow> Inr (c # r))
      else if is_trail c then Inl URIError
      else if is_lead c then
        (case cs of
           [] \<Rightarrow> Inl URIError
         | d # ds \<Rightarrow>
             if is_trail d then
               (case encodeURIComponent ds of
                  Inl e \<Rightarrow> Inl e
                | Inr r \<Rightarrow> Inr (percent_code_point (pair_code_point c d) @ r))
             else Inl URIError)
      else
        (case encodeURIComponent cs of
           Inl e \<Rightarrow> Inl e
         | Inr r \<Rightarrow> Inr (percent_code_point (unat c) @ r)))"

section \<open>The signer: specParams and stringToSign\<close>

text \<open>
  \<^verbatim>\<open>specParams\<close> (lines 303-317): the keys are sorted with the default \<^verbatim>\<open>sort()\<close>, which
  compares strings code unit by code unit; the loop appends \<^verbatim>\<open>&key=value\<close> for every key
  but \<^verbatim>\<open>Signature\<close>; \<^verbatim>\<open>substring(1)\<close> drops the leading \<^verbatim>\<open>&\<close>. An exception of
  \<^verbatim>\<open>String\<close> or of \<^verbatim>\<open>encodeURIComponent\<close> ends the call.
\<close>

fun specParams_forEach ::
  "(jsstring \<times> jsval) list \<Rightarrow> jsstring list \<Rightarrow> jsstring \<Rightarrow> error + jsstring" where
  "specParams_forEach params [] sign = Inr sign"
| "specParams_forEach params (v # vs) sign =
     (if v \<noteq> js ''Signature'' then
        (case js_String (object_get params v) of
           Inl e \<Rightarrow> Inl e
         | Inr str \<Rightarrow>
             (case encodeURIComponent str of
                Inl e \<Rightarrow> Inl e
              | Inr enc \<Rightarrow>
                  specParams_forEach params vs (sign @ js ''&'' @ v @ js ''='' @ enc)))
      else specParams_forEach params vs sign)"

definition specParams :: "(jsstring \<times> jsval) list \<Rightarrow> error + jsstring" where
  "specParams params =
     (let keys = Object_keys params;
          keysSorted = sort keys
      in case specParams_forEach params keysSorted [] of
           Inl e \<Rightarrow> Inl e
         | Inr sign \<Rightarrow> Inr (drop 1 sign))"

datatype http_method = GET | POST

fun method_name :: "http_method \<Rightarrow> jsstring" where
  "method_name GET = js ''GET''"
| "method_name POST = js ''POST''"

text \<open>\<^verbatim>\<open>stringToSign\<close> (lines 324-326).\<close>

definition stringToSign :: "http_method \<Rightarrow> jsstring \<Rightarrow> error + jsstring" where
  "stringToSign method paramsStr =
     (case encodeURIComponent paramsStr of
        Inl e \<Rightarrow> Inl e
      | Inr enc \<Rightarrow> Inr (method_name method @ js ''&%2F&'' @ enc))"

section \<open>The signature: HMAC-SHA1 and base64\<close>

text \<open>
  \<^verbatim>\<open>AliSMS.hmac\<close> (lines 292-296) calls two imported functions, \<^verbatim>\<open>hmac\<close> of the module
  \<^verbatim>\<open>somefn\<close> with hash SHA-1 and a string key, and \<^verbatim>\<open>encode\<close> of the standard base64
  module. Both are library code outside \<^verbatim>\<open>src/\<close>; the definitions of this section give
  the algorithms they name.
\<close>

text \<open>
  Modelled from the spec: the text encoder of the imported \<^verbatim>\<open>hmac\<close> is missing; the
  message and the key are the UTF-8 octets of the strings. An unpaired surrogate is
  written as U+FFFD, as \<^verbatim>\<open>TextEncoder\<close> does.
\<close>

fun utf8_encode :: "jsstring \<Rightarrow> octet list" where
  "utf8_encode [] = []"
| "utf8_encode (c # cs) =
     (if is_lead c then
        (case cs of
           [] \<Rightarrow> [0xEF, 0xBF, 0xBD]
         | d # ds \<Rightarrow>
             if is_trail d then utf8_octets (pair_code_point c d) @ utf8_encode ds
             else [0xEF, 0xBF, 0xBD] @ utf8_encode cs)
      else if is_trail c then [0xEF, 0xBF, 0xBD] @ utf8_encode cs
      else utf8_octets (unat c) @ utf8_encode cs)"

type_synonym word32 = "32 word"
type_synonym sha1_state = "word32 \<times> word32 \<times> word32 \<times> word32 \<times> word32"

text \<open>
  Modelled from the spec: the hash of the imported \<^verbatim>\<open>hmac\<close> is missing; it is SHA-1
  (FIPS 180-4): 512-bit blocks of big-endian words, a schedule of 80 words, 80 rounds.
\<close>

definition rotl32 :: "nat \<Rightarrow> word32 \<Rightarrow> word32" where
  "rotl32 n x = push_bit n x OR drop_bit (32 - n) x"

definition sha1_f :: "nat \<Rightarrow> word32 \<Rightarrow> word32 \<Rightarrow> word32 \<Rightarrow> word32" where
  "sha1_f t b c d =
     (if t < 20 then (b AND c) OR (NOT b AND d)
      else if t < 40 then b XOR c XOR d
      else if t < 60 then (b AND c) OR (b AND d) OR (c AND d)
      else b XOR c XOR d)"

definition sha1_k :: "nat \<Rightarrow> word32" where
  "sha1_k t =
     (if t < 20 then 0x5A827999
      else if t < 40 then 0x6ED9EBA1
      else if t < 60 then 0x8F1BBCDC
      else 0xCA62C1D6)"

fun sha1_round :: "sha1_state \<Rightarrow> nat \<times> word32 \<Rightarrow> sha1_state" where
  "sha1_round (a, b, c, d, e) (t, w) =
     (rotl32 5 a + sha1_f t b c d + e + sha1_k t + w, a, rotl32 30 b, c, d)"

fun sha1_rounds :: "nat \<Rightarrow> word32 list \<Rightarrow> sha1_state \<Rightarrow> sha1_state" where
  "sha1_rounds t [] s = s"
| "sha1_rounds t (w # ws) s = sha1_rounds (t + 1) ws (sha1_round s (t, w))"

fun be32 :: "octet list \<Rightarrow> word32 list" where
  "be32 (b0 # b1 # b2 # b3 # bs) =
     (push_bit 24 (ucast b0) OR push_bit 16 (ucast b1) OR push_bit 8 (ucast b2) OR ucast b3)
       # be32 bs"
| "be32 _ = []"

text \<open>
  The schedule grows newest word first: with \<open>t\<close> words present, the words \<open>t - 3\<close>,
  \<open>t - 8\<close>, \<open>t - 14\<close> and \<open>t - 16\<close> are at positions 2, 7, 13 and 15.
\<close>

definition sha1_extend :: "word32 list \<Rightarrow> word32 list" where
  "sha1_extend w = rotl32 1 (w ! 2 XOR w ! 7 XOR w ! 13 XOR w ! 15) # w"

definition sha1_schedule :: "word32 list \<Rightarrow> word32 list" where
  "sha1_schedule m = rev (foldl (\<lambda>w t. sha1_extend w) (rev m) [16..<80])"

fun sha1_block :: "sha1_state \<Rightarrow> octet list \<Rightarrow> sha1_state" where
  "sha1_block (h0, h1, h2, h3, h4) blk =
     (case sha1_rounds 0 (sha1_schedule (be32 blk)) (h0, h1, h2, h3, h4) of
        (a, b, c, d, e) \<Rightarrow> (h0 + a, h1 + b, h2 + c, h3 + d, h4 + e))"

definition sha1_init :: sha1_state where
  "sha1_init = (0x67452301, 0xEFCDAB89, 0x98BADCFE, 0x10325476, 0xC3D2E1F0)"

function sha1_blocks :: "sha1_state \<Rightarrow> octet list \<Rightarrow> sha1_state" where
  "sha1_blocks h m =
     (if length m < 64 then h else sha1_blocks (sha1_block h (take 64 m)) (drop 64 m))"
  by pat_completeness auto
termination
  by (relation "measure (\<lambda>(h, m). length m)") auto

declare sha1_blocks.simps [simp del]

definition be64 :: "nat \<Rightarrow> octet list" where
  "be64 n = map (\<lambda>i. of_nat (n div 2 ^ (8 * i))) [7, 6, 5, 4, 3, 2, 1, 0]"

definition sha1_pad :: "octet list \<Rightarrow> octet list" where
  "sha1_pad m =
     m @ [0x80] @ replicate ((119 - length m mod 64) mod 64) 0 @ be64 (8 * length m)"

fun word32_octets :: "word32 \<Rightarrow> octet list" where
  "word32_octets w = [ucast (drop_bit 24 w), ucast (drop_bit 16 w), ucast (drop_bit 8 w), ucast w]"

fun sha1_digest :: "sha1_state \<Rightarrow> octet list" where
  "sha1_digest (h0, h1, h2, h3, h4) = concat (map word32_octets [h0, h1, h2, h3, h4])"

definition sha1 :: "octet list \<Rightarrow> octet list" where
  "sha1 m = sha1_digest (sha1_blocks sha1_init (sha1_pad m))"

text \<open>
  Modelled from the spec: the imported \<^verbatim>\<open>hmac\<close> is missing; it is HMAC (RFC 2104) with
  the 64-octet block of SHA-1.
\<close>

definition hmac_sha1 :: "octet list \<Rightarrow> octet list \<Rightarrow> octet list" where
  "hmac_sha1 key msg =
     (let k = (if length key > 64 then sha1 key else key);
          k0 = k @ replicate (64 - length k) 0
      in sha1 (map (\<lambda>b. b XOR 0x5C) k0 @ sha1 (map (\<lambda>b. b XOR 0x36) k0 @ msg)))"

text \<open>
  Modelled from the spec: the imported \<^verbatim>\<open>encode\<close> is missing; it is the standard base64
  encoding with padding (RFC 4648).
\<close>

definition base64_char :: "nat \<Rightarrow> code_unit" where
  "base64_char n =
     (if n < 26 then of_nat (0x41 + n)
      else if n < 52 then of_nat (0x61 + (n - 26))
      else if n < 62 then of_nat (0x30 + (n - 52))
      else if n = 62 then 0x2B
      else 0x2F)"

fun encode :: "octet list \<Rightarrow> jsstring" where
  "encode [] = []"
| "encode [a] = [base64_char (unat a div 4), base64_char (unat a mod 4 * 16), 0x3D, 0x3D]"
| "encode [a, b] =
     [base64_char (unat a div 4), base64_char (unat a mod 4 * 16 + unat b div 16),
      base64_char (unat b mod 16 * 4), 0x3D]"
| "encode (a # b # c # bs) =
     [base64_char (unat a div 4), base64_char (unat a mod 4 * 16 + unat b div 16),
      base64_char (unat b mod 16 * 4 + unat c div 64), base64_char (unat c mod 64)]
       @ encode bs"

text \<open>\<^verbatim>\<open>AliSMS.hmac\<close> (lines 292-296): the key is the secret followed by \<^verbatim>\<open>&\<close>.\<close>

definition hmac :: "jsstring \<Rightarrow> jsstring \<Rightarrow> jsstring" where
  "hmac sign secret =
     (let secretSuffix = js ''&'';
          u = hmac_sha1 (utf8_encode (secret @ secretSuffix)) (utf8_encode sign)
      in encode u)"

section \<open>The client: sendSMS and querySendDetails\<close>

record AliSMS =
  format :: jsstring
  version :: jsstring
  signatureMethod :: jsstring
  signatureVersion :: jsstring
  endPoint :: jsstring
  accessKeyID :: jsstring
  accessKeySecret :: jsstring

text \<open>The constructor (lines 82-94).\<close>

definition new_AliSMS :: "jsstring \<Rightarrow> jsstring \<Rightarrow> AliSMS" where
  "new_AliSMS keyID keySecret =
     \<lparr>format = js ''JSON'',
      version = js ''2017-05-25'',
      signatureMethod = js ''HMAC-SHA1'',
      signatureVersion = js ''1.0'',
      endPoint = js ''https://dysmsapi.aliyuncs.com'',
      accessKeyID = keyID,
      accessKeySecret = keySecret\<rparr>"

text \<open>
  What one call takes from outside the program: the value \<^verbatim>\<open>getNowISOTime()\<close> returns
  (the clock), the value \<^verbatim>\<open>getNonce()\<close> returns (a product of the clock and
  \<^verbatim>\<open>Math.random()\<close>, rounded down: a natural number), and the HTTP exchange: \<^verbatim>\<open>fetch\<close>
  of a URL followed by \<^verbatim>\<open>resp.json()\<close> gives the parsed body, or fails.
\<close>

record world =
  getNowISOTime :: jsstring
  getNonce :: nat
  fetch_json :: "jsstring \<Rightarrow> error + jsval"

text \<open>
  The assignment \<^verbatim>\<open>o.k = v\<close>: an existing property keeps its place, a new one comes last.
\<close>

fun object_set :: "(jsstring \<times> jsval) list \<Rightarrow> jsstring \<Rightarrow> jsval \<Rightarrow> (jsstring \<times> jsval) list" where
  "object_set [] k v = [(k, v)]"
| "object_set ((k', v') # ps) k v =
     (if k' = k then (k, v) # ps else (k', v') # object_set ps k v)"

text \<open>
  The member read \<^verbatim>\<open>v.k\<close> on any value, for the names the program reads (none of them
  is a built-in member of strings, numbers, booleans or arrays): TypeError on
  \<^verbatim>\<open>undefined\<close> and \<^verbatim>\<open>null\<close>.
\<close>

definition member :: "jsval \<Rightarrow> jsstring \<Rightarrow> error + jsval" where
  "member v k =
     (case v of
        Undefined \<Rightarrow> Inl TypeError
      | Null \<Rightarrow> Inl TypeError
      | Obj ps \<Rightarrow> Inr (object_get ps k)
      | _ \<Rightarrow> Inr Undefined)"

text \<open>
  \<^verbatim>\<open>v.map(f)\<close>: the elements of an array in order, stopping at the first exception;
  TypeError when \<open>v\<close> is not an array (a parsed JSON value has no other \<^verbatim>\<open>map\<close>).
\<close>

fun map_elements :: "(jsval \<Rightarrow> error + jsval) \<Rightarrow> jsval list \<Rightarrow> error + jsval list" where
  "map_elements f [] = Inr []"
| "map_elements f (x # xs) =
     (case f x of
        Inl e \<Rightarrow> Inl e
      | Inr y \<Rightarrow> (case map_elements f xs of Inl e \<Rightarrow> Inl e | Inr ys \<Rightarrow> Inr (y # ys)))"

definition array_map :: "(jsval \<Rightarrow> error + jsval) \<Rightarrow> jsval \<Rightarrow> error + jsval" where
  "array_map f v =
     (case v of
        Arr xs \<Rightarrow> (case map_elements f xs of Inl e \<Rightarrow> Inl e | Inr ys \<Rightarrow> Inr (Arr ys))
      | _ \<Rightarrow> Inl TypeError)"

text \<open>
  The request of both methods (lines 142-157 and 212-227, the same statements): sign the
  parameters, build the URL, fetch it and parse the body.
\<close>

definition signed_get :: "AliSMS \<Rightarrow> world \<Rightarrow> (jsstring \<times> jsval) list \<Rightarrow> error + jsval" where
  "signed_get this w params =
     and_then (specParams params) (\<lambda>paramsStr.
     and_then (stringToSign GET paramsStr) (\<lambda>strToSign.
       let signature = hmac strToSign (accessKeySecret this) in
       and_then (encodeURIComponent signature) (\<lambda>encoded.
         fetch_json w
           (endPoint this @ js ''/?'' @ paramsStr @ js ''&Signature='' @ encoded))))"

text \<open>
  \<^verbatim>\<open>sendSMS\<close>: the parameters (lines 118-136; \<^verbatim>\<open>tplParam\<close> is optional, and the test
  \<^verbatim>\<open>if (tplParam)\<close> fails on \<^verbatim>\<open>undefined\<close> and on the empty string).
\<close>

definition sendSMS_params ::
  "AliSMS \<Rightarrow> world \<Rightarrow> jsstring list \<Rightarrow> jsstring \<Rightarrow> jsstring \<Rightarrow> jsstring option \<Rightarrow>
     (jsstring \<times> jsval) list" where
  "sendSMS_params this w phoneNumbers signName tplCode tplParam =
     (let action = js ''SendSms'';
          params =
            [(js ''AccessKeyId'', Str (accessKeyID this)),
             (js ''Action'', Str action),
             (js ''Format'', Str (format this)),
             (js ''Version'', Str (version this)),
             (js ''Timestamp'', Str (getNowISOTime w)),
             (js ''SignatureNonce'', Num (int (getNonce w))),
             (js ''SignatureMethod'', Str (signatureMethod this)),
             (js ''SignatureVersion'', Str (signatureVersion this)),
             (js ''PhoneNumbers'', Arr (map Str phoneNumbers)),
             (js ''SignName'', Str signName),
             (js ''TemplateCode'', Str tplCode)]
      in case tplParam of
           None \<Rightarrow> params
         | Some s \<Rightarrow> if s \<noteq> [] then object_set params (js ''TemplateParam'') (Str s) else params)"

text \<open>The response of \<^verbatim>\<open>sendSMS\<close> (lines 158-172). The diagnostic line is not modelled.\<close>

definition sendSMS_response :: "jsval \<Rightarrow> error + jsval" where
  "sendSMS_response result =
     and_then (member result (js ''Code'')) (\<lambda>c.
       if c \<noteq> Str (js ''OK'') then
         and_then (member result (js ''Code'')) (\<lambda>Code.
         and_then (member result (js ''Message'')) (\<lambda>Message.
         and_then (member result (js ''RequestId'')) (\<lambda>RequestId.
           Inr (Obj [(js ''code'', Code),
                     (js ''message'', Message),
                     (js ''requestID'', RequestId)]))))
       else
         and_then (member result (js ''Code'')) (\<lambda>Code.
         and_then (member result (js ''Message'')) (\<lambda>Message.
         and_then (member result (js ''RequestId'')) (\<lambda>RequestId.
         and_then (member result (js ''BizId'')) (\<lambda>BizId.
           Inr (Obj [(js ''code'', Code),
                     (js ''message'', Message),
                     (js ''requestID'', RequestId),
                     (js ''bizID'', BizId)]))))))"

definition sendSMS ::
  "AliSMS \<Rightarrow> world \<Rightarrow> jsstring list \<Rightarrow> jsstring \<Rightarrow> jsstring \<Rightarrow> jsstring option \<Rightarrow>
     error + jsval" where
  "sendSMS this w phoneNumbers signName tplCode tplParam =
     and_then (signed_get this w (sendSMS_params this w phoneNumbers signName tplCode tplParam))
       sendSMS_response"

text \<open>\<^verbatim>\<open>querySendDetails\<close>: the parameters (lines 187-206).\<close>

definition querySendDetails_params ::
  "AliSMS \<Rightarrow> world \<Rightarrow> jsstring \<Rightarrow> jsstring \<Rightarrow> int \<Rightarrow> int \<Rightarrow> jsstring option \<Rightarrow>
     (jsstring \<times> jsval) list" where
  "querySendDetails_params this w phoneNumber sendDate pageSize currentPage bizID =
     (let action = js ''QuerySendDetails'';
          params =
            [(js ''AccessKeyId'', Str (accessKeyID this)),
             (js ''Action'', Str action),
             (js ''Format'', Str (format this)),
             (js ''Version'', Str (version this)),
             (js ''Timestamp'', Str (getNowISOTime w)),
             (js ''SignatureNonce'', Num (int (getNonce w))),
             (js ''SignatureMethod'', Str (signatureMethod this)),
             (js ''SignatureVersion'', Str (signatureVersion this)),
             (js ''PhoneNumber'', Str phoneNumber),
             (js ''SendDate'', Str sendDate),
             (js ''PageSize'', Num pageSize),
             (js ''CurrentPage'', Num currentPage)]
      in case bizID of
           None \<Rightarrow> params
         | Some s \<Rightarrow> if s \<noteq> [] then object_set params (js ''BizID'') (Str s) else params)"

text \<open>One delivery record (the callback of lines 239-257).\<close>

definition sendDetail :: "jsval \<Rightarrow> error + jsval" where
  "sendDetail v =
     and_then (member v (js ''TemplateCode'')) (\<lambda>TemplateCode.
     and_then (member v (js ''ReceiveDate'')) (\<lambda>ReceiveDate.
     and_then (member v (js ''PhoneNum'')) (\<lambda>PhoneNum.
     and_then (member v (js ''Content'')) (\<lambda>Content.
     and_then (member v (js ''SendDate'')) (\<lambda>SendDate.
     and_then (member v (js ''SendStatus'')) (\<lambda>SendStatus.
     and_then (member v (js ''ErrCode'')) (\<lambda>ErrCode.
       Inr (Obj [(js ''templateCode'', TemplateCode),
                 (js ''receiveDate'', ReceiveDate),
                 (js ''phoneNum'', PhoneNum),
                 (js ''content'', Content),
                 (js ''sendDate'', SendDate),
                 (js ''sendStatus'', SendStatus),
                 (js ''errCode'', ErrCode)]))))))))"

text \<open>The response of \<^verbatim>\<open>querySendDetails\<close> (lines 228-266).\<close>

definition querySendDetails_response :: "jsval \<Rightarrow> error + jsval" where
  "querySendDetails_response result =
     and_then (member result (js ''Code'')) (\<lambda>c.
       if c \<noteq> Str (js ''OK'') then
         and_then (member result (js ''Code'')) (\<lambda>Code.
         and_then (member result (js ''Message'')) (\<lambda>Message.
         and_then (member result (js ''RequestId'')) (\<lambda>RequestId.
           Inr (Obj [(js ''code'', Code),
                     (js ''message'', Message),
                     (js ''requestID'', RequestId)]))))
       else
         and_then (member result (js ''SmsSendDetailDTOs'')) (\<lambda>SmsSendDetailDTOs.
         and_then (member SmsSendDetailDTOs (js ''SmsSendDetailDTO'')) (\<lambda>detailsDTO.
         and_then (array_map sendDetail detailsDTO) (\<lambda>details.
         and_then (member result (js ''Code'')) (\<lambda>Code.
         and_then (member result (js ''Message'')) (\<lambda>Message.
         and_then (member result (js ''RequestId'')) (\<lambda>RequestId.
         and_then (member result (js ''TotalCount'')) (\<lambda>TotalCount.
           Inr (Obj [(js ''code'', Code),
                     (js ''message'', Message),
                     (js ''requestID'', RequestId),
                     (js ''totalCount'', TotalCount),
                     (js ''smsSendDetailDTOs'',
                        Obj [(js ''smsSendDetailDTO'', details)])])))))))))"

definition querySendDetails ::
  "AliSMS \<Rightarrow> world \<Rightarrow> jsstring \<Rightarrow> jsstring \<Rightarrow> int \<Rightarrow> int \<Rightarrow> jsstring option \<Rightarrow>
     error + jsval" where
  "querySendDetails this w phoneNumber sendDate pageSize currentPage bizID =
     and_then
       (signed_get this w
          (querySendDetails_params this w phoneNumber sendDate pageSize currentPage bizID))
       querySendDetails_response"

section \<open>Test vectors\<close>

text \<open>The parameters of the test \<^verbatim>\<open>testStringToSign\<close>, in the order the test writes them.\<close>

definition test_params :: "(jsstring \<times> jsval) list" where
  "test_params =
     [(js ''Action'', Str (js ''DescribeDedicatedHosts'')),
      (js ''AccessKeyId'', Str (js ''testid'')),
      (js ''SignatureMethod'', Str (js ''HMAC-SHA1'')),
      (js ''SignatureVersion'', Str (js ''1.0'')),
      (js ''SignatureNonce'', Str (js ''3ee8c1b8-xxxx-xxxx-xxxx-xxxxxxxxx'')),
      (js ''Timestamp'', Str (js ''2016-02-23T12:46:24Z'')),
      (js ''Version'', Str (js ''2014-05-26'')),
      (js ''Format'', Str (js ''XML''))]"

definition test_string_to_sign :: jsstring where
  "test_string_to_sign = js (''GET&%2F&AccessKeyId%3Dtestid%26Action%3DDescribeDedicatedHosts'' @
     ''%26Format%3DXML%26SignatureMethod%3DHMAC-SHA1'' @
     ''%26SignatureNonce%3D3ee8c1b8-xxxx-xxxx-xxxx-xxxxxxxxx%26SignatureVersion%3D1.0'' @
     ''%26Timestamp%3D2016-02-23T12%253A46%253A24Z%26Version%3D2014-05-26'')"

text \<open>
  The signature vector of the test \<^verbatim>\<open>testSignature\<close>: the octets of the key
  \<^verbatim>\<open>testsecret&\<close> and of the string to sign, the inner hash of HMAC and the MAC.
\<close>

definition vector_key :: "octet list" where
  "vector_key =
    [0x74, 0x65, 0x73, 0x74, 0x73, 0x65, 0x63, 0x72, 0x65, 0x74, 0x26]"

definition vector_message :: "octet list" where
  "vector_message =
    [0x47, 0x45, 0x54, 0x26, 0x25, 0x32, 0x46, 0x26, 0x41, 0x63, 0x63, 0x65, 0x73, 0x73, 0x4B, 0x65,
     0x79, 0x49, 0x64, 0x25, 0x33, 0x44, 0x74, 0x65, 0x73, 0x74, 0x69, 0x64, 0x25, 0x32, 0x36, 0x41,
     0x63, 0x74, 0x69, 0x6F, 0x6E, 0x25, 0x33, 0x44, 0x44, 0x65, 0x73, 0x63, 0x72, 0x69, 0x62, 0x65,
     0x44, 0x65, 0x64, 0x69, 0x63, 0x61, 0x74, 0x65, 0x64, 0x48, 0x6F, 0x73, 0x74, 0x73, 0x25, 0x32,
     0x36, 0x46, 0x6F, 0x72, 0x6D, 0x61, 0x74, 0x25, 0x33, 0x44, 0x58, 0x4D, 0x4C, 0x25, 0x32, 0x36,
     0x53, 0x69, 0x67, 0x6E, 0x61, 0x74, 0x75, 0x72, 0x65, 0x4D, 0x65, 0x74, 0x68, 0x6F, 0x64, 0x25,
     0x33, 0x44, 0x48, 0x4D, 0x41, 0x43, 0x2D, 0x53, 0x48, 0x41, 0x31, 0x25, 0x32, 0x36, 0x53, 0x69,
     0x67, 0x6E, 0x61, 0x74, 0x75, 0x72, 0x65, 0x4E, 0x6F, 0x6E, 0x63, 0x65, 0x25, 0x33, 0x44, 0x33,
     0x65, 0x65, 0x38, 0x63, 0x31, 0x62, 0x38, 0x2D, 0x78, 0x78, 0x78, 0x78, 0x2D, 0x78, 0x78, 0x78,
     0x78, 0x2D, 0x78, 0x78, 0x78, 0x78, 0x2D, 0x78, 0x78, 0x78, 0x78, 0x78, 0x78, 0x78, 0x78, 0x78,
     0x25, 0x32, 0x36, 0x53, 0x69, 0x67, 0x6E, 0x61, 0x74, 0x75, 0x72, 0x65, 0x56, 0x65, 0x72, 0x73,
     0x69, 0x6F, 0x6E, 0x25, 0x33, 0x44, 0x31, 0x2E, 0x30, 0x25, 0x32, 0x36, 0x54, 0x69, 0x6D, 0x65,
     0x73, 0x74, 0x61, 0x6D, 0x70, 0x25, 0x33, 0x44, 0x32, 0x30, 0x31, 0x36, 0x2D, 0x30, 0x32, 0x2D,
     0x32, 0x33, 0x54, 0x31, 0x32, 0x25, 0x32, 0x35, 0x33, 0x41, 0x34, 0x36, 0x25, 0x32, 0x35, 0x33,
     0x41, 0x32, 0x34, 0x5A, 0x25, 0x32, 0x36, 0x56, 0x65, 0x72, 0x73, 0x69, 0x6F, 0x6E, 0x25, 0x33,
     0x44, 0x32, 0x30, 0x31, 0x34, 0x2D, 0x30, 0x35, 0x2D, 0x32, 0x36]"

definition vector_inner :: "octet list" where
  "vector_inner =
    [0x42, 0x58, 0x8C, 0xF2, 0x40, 0x91, 0xB7, 0xB5, 0x8F, 0xD6, 0x3D, 0x3D, 0x81, 0x12, 0xB1, 0xE0,
     0x2E, 0x25, 0xA6, 0xAB]"

definition vector_mac :: "octet list" where
  "vector_mac =
    [0xAC, 0x04, 0x6C, 0x17, 0xE0, 0x48, 0x83, 0xCA, 0x59, 0xE1, 0xED, 0x25, 0x9F, 0xA6, 0x7D, 0xEA,
     0x50, 0x4C, 0x0E, 0x6B]"

text \<open>
  A client and an outside world for examples: the exchange answers every URL with the
  given body.
\<close>

definition example_client :: AliSMS where
  "example_client = new_AliSMS (js ''testid'') (js ''testsecret'')"

definition example_world :: "jsval \<Rightarrow> world" where
  "example_world body =
     \<lparr>getNowISOTime = js ''2022-08-12T03:04:05.678Z'',
      getNonce = 1234567,
      fetch_json = (\<lambda>url. Inr body)\<rparr>"

definition example_send :: "jsval \<Rightarrow> error + jsval" where
  "example_send body =
     sendSMS example_client (example_world body)
       [js ''13800000000'', js ''13900000000''] (js ''shop'') (js ''SMS_1'') (Some (js ''{}''))"

definition example_query :: "jsval \<Rightarrow> error + jsval" where
  "example_query body =
     querySendDetails example_client (example_world body)
       (js ''13800000000'') (js ''20220812'') 10 1 None"

definition example_record :: "(jsstring \<times> jsval) list" where
  "example_record =
     [(js ''TemplateCode'', Str (js ''SMS_1'')),
      (js ''ReceiveDate'', Str (js ''2022-08-12 11:04:09'')),
      (js ''PhoneNum'', Str (js ''13800000000'')),
      (js ''Content'', Str (js ''hello'')),
      (js ''SendStatus'', Num 3),
      (js ''SendDate'', Str (js ''2022-08-12 11:04:05'')),
      (js ''ErrCode'', Str (js ''DELIVERED''))]"

section \<open>Notions of the specification\<close>

text \<open>
  The canonical query string written from a list of pairs of a key and an encoded value:
  \<^verbatim>\<open>key=value\<close>, joined by \<^verbatim>\<open>&\<close>.
\<close>

definition render_query :: "(jsstring \<times> jsstring) list \<Rightarrow> jsstring" where
  "render_query kes = join (js ''&'') (map (\<lambda>(k, e). k @ js ''='' @ e) kes)"

text \<open>
  Every pair carries the key's value of \<open>params\<close>, converted to a string and encoded.
\<close>

definition encodes_values :: "(jsstring \<times> jsval) list \<Rightarrow> (jsstring \<times> jsstring) list \<Rightarrow> bool" where
  "encodes_values params kes =
     list_all
       (\<lambda>(k, e). and_then (js_String (object_get params k)) encodeURIComponent = Inr e) kes"

text \<open>
  The encoding in the words of the specification: the unreserved characters of RFC 3986
  (letters, digits, \<^verbatim>\<open>- . _ ~\<close>) are copied and the other code points are written as
  the octets of their UTF-8 form, \<^verbatim>\<open>%XX\<close> each; \<open>kept_mark\<close> lists the five further
  characters the program copies: \<^verbatim>\<open>! ' ( ) *\<close>.
\<close>

definition unreserved :: "nat \<Rightarrow> bool" where
  "unreserved cp =
     ((0x41 \<le> cp \<and> cp \<le> 0x5A) \<or> (0x61 \<le> cp \<and> cp \<le> 0x7A) \<or> (0x30 \<le> cp \<and> cp \<le> 0x39) \<or>
      cp = 0x2D \<or> cp = 0x2E \<or> cp = 0x5F \<or> cp = 0x7E)"

definition kept_mark :: "nat \<Rightarrow> bool" where
  "kept_mark cp = (cp = 0x21 \<or> cp = 0x27 \<or> cp = 0x28 \<or> cp = 0x29 \<or> cp = 0x2A)"

definition escape_code_point :: "nat \<Rightarrow> jsstring" where
  "escape_code_point cp =
     (if unreserved cp \<or> kept_mark cp then [of_nat cp] else percent_code_point cp)"

fun code_points :: "jsstring \<Rightarrow> nat list option" where
  "code_points [] = Some []"
| "code_points (c # cs) =
     (if is_trail c then None
      else if is_lead c then
        (case cs of
           [] \<Rightarrow> None
         | d # ds \<Rightarrow> if is_trail d then map_option (Cons (pair_code_point c d)) (code_points ds) else None)
      else map_option (Cons (unat c)) (code_points cs))"

text \<open>A string with an unpaired surrogate has no encoding.\<close>

definition percent_encode :: "jsstring \<Rightarrow> jsstring option" where
  "percent_encode v = map_option (\<lambda>cps. concat (map escape_code_point cps)) (code_points v)"

text \<open>
  The identity on words, under a name of its own: the evaluation of SHA-1 reduces a
  numeral to its residue where it stands.
\<close>

definition norm32 :: "word32 \<Rightarrow> word32" where
  "norm32 x = of_nat (unat x)"

definition norm8 :: "octet \<Rightarrow> octet" where
  "norm8 x = of_nat (unat x)"

section \<open>Evaluation\<close>

lemmas char_class_defs =
  uriUnescaped_def uriAlpha_def DecimalDigit_def uriMark_def is_lead_def is_trail_def

lemmas percent_defs =
  percent_code_point_def percent_octet_def utf8_octets_def hex_digit_def pair_code_point_def

lemmas eval_defs =
  specParams_def Object_keys_def object_get_def js_def char_class_defs percent_defs
  NumberToString_def decimal.simps

lemmas example_defs =
  example_client_def new_AliSMS_def example_world_def sendSMS_params_def
  querySendDetails_params_def

lemma test_params_canonical:
  "specParams test_params = Inr (js (''AccessKeyId=testid&Action=DescribeDedicatedHosts&Format=XML'' @
     ''&SignatureMethod=HMAC-SHA1&SignatureNonce=3ee8c1b8-xxxx-xxxx-xxxx-xxxxxxxxx'' @
     ''&SignatureVersion=1.0&Timestamp=2016-02-23T12%3A46%3A24Z&Version=2014-05-26''))"
  by (simp add: specParams_def test_params_def Object_keys_def object_get_def js_def
      char_class_defs percent_defs)

section \<open>The test vectors\<close>

text \<open>
  C1. For the parameters of the round-trip vector, \<^verbatim>\<open>specParams\<close> followed by
  \<^verbatim>\<open>stringToSign\<close> with method GET gives exactly the string to sign of the vector.
\<close>

theorem C1_round_trip_vector:
  "(case specParams test_params of Inl e \<Rightarrow> Inl e | Inr paramsStr \<Rightarrow> stringToSign GET paramsStr)
     = Inr test_string_to_sign"
  by (simp add: test_params_canonical stringToSign_def test_string_to_sign_def js_def
      char_class_defs percent_defs)

text \<open>
  The signature vector is evaluated block by block: each lemma is one application of the
  compression function of SHA-1 to 64 octets, six for the inner hash and two for the
  outer one.
\<close>

lemma replicate_numeral_eval: "replicate (numeral k) x = x # replicate (numeral k - 1) x"
  by (simp add: numeral_eq_Suc)

lemma norm32_id: "norm32 x = x"
  by (simp add: norm32_def)

lemma norm8_id: "norm8 x = x"
  by (simp add: norm8_def)

lemma norm32_eval:
  "norm32 (numeral n) = of_nat (take_bit 32 (numeral n))" "norm32 0 = 0" "norm32 1 = 1"
  by (simp_all add: norm32_def)

lemma norm8_eval:
  "norm8 (numeral n) = of_nat (take_bit 8 (numeral n))" "norm8 0 = 0" "norm8 1 = 1"
  by (simp_all add: norm8_def)

lemma sha1_round_norm:
  "sha1_round (a, b, c, d, e) (t, w) =
     (norm32 (rotl32 5 a + sha1_f t b c d + e + sha1_k t + w), a, norm32 (rotl32 30 b), c, d)"
  by (simp add: norm32_id)

lemma sha1_extend_norm:
  "sha1_extend w = norm32 (rotl32 1 (w ! 2 XOR w ! 7 XOR w ! 13 XOR w ! 15)) # w"
  by (simp add: norm32_id sha1_extend_def)

lemma sha1_block_norm:
  "sha1_block (h0, h1, h2, h3, h4) blk =
     (case sha1_rounds 0 (sha1_schedule (be32 blk)) (h0, h1, h2, h3, h4) of
        (a, b, c, d, e) \<Rightarrow>
          (norm32 (h0 + a), norm32 (h1 + b), norm32 (h2 + c), norm32 (h3 + d), norm32 (h4 + e)))"
  by (simp add: norm32_id)

lemma word32_octets_norm:
  "word32_octets w =
     [norm8 (ucast (drop_bit 24 w)), norm8 (ucast (drop_bit 16 w)), norm8 (ucast (drop_bit 8 w)),
      norm8 (ucast w)]"
  by (simp add: norm8_id)

lemmas sha1_eval =
  sha1_schedule_def sha1_extend_norm rotl32_def sha1_f_def sha1_k_def norm32_eval
  sha1_round_norm sha1_block_norm

lemma vector_inner_block1:
  "sha1_block (0x67452301, 0xEFCDAB89, 0x98BADCFE, 0x10325476, 0xC3D2E1F0)
    [0x42, 0x53, 0x45, 0x42, 0x45, 0x53, 0x55, 0x44, 0x53, 0x42, 0x10, 0x36, 0x36, 0x36, 0x36, 0x36,
     0x36, 0x36, 0x36, 0x36, 0x36, 0x36, 0x36, 0x36, 0x36, 0x36, 0x36, 0x36, 0x36, 0x36, 0x36, 0x36,
     0x36, 0x36, 0x36, 0x36, 0x36, 0x36, 0x36, 0x36, 0x36, 0x36, 0x36, 0x36, 0x36, 0x36, 0x36, 0x36,
     0x36, 0x36, 0x36, 0x36, 0x36, 0x36, 0x36, 0x36, 0x36, 0x36, 0x36, 0x36, 0x36, 0x36, 0x36, 0x36]
   = (0x0B7B1FA6, 0x6DB4A0ED, 0x5F876DC8, 0x886823DF, 0xCE33B0CC)"
  by (simp add: sha1_eval del: sha1_round.simps sha1_block.simps)

lemma vector_inner_block2:
  "sha1_block (0x0B7B1FA6, 0x6DB4A0ED, 0x5F876DC8, 0x886823DF, 0xCE33B0CC)
    [0x47, 0x45, 0x54, 0x26, 0x25, 0x32, 0x46, 0x26, 0x41, 0x63, 0x63, 0x65, 0x73, 0x73, 0x4B, 0x65,
     0x79, 0x49, 0x64, 0x25, 0x33, 0x44, 0x74, 0x65, 0x73, 0x74, 0x69, 0x64, 0x25, 0x32, 0x36, 0x41,
     0x63, 0x74, 0x69, 0x6F, 0x6E, 0x25, 0x33, 0x44, 0x44, 0x65, 0x73, 0x63, 0x72, 0x69, 0x62, 0x65,
     0x44, 0x65, 0x64, 0x69, 0x63, 0x61, 0x74, 0x65, 0x64, 0x48, 0x6F, 0x73, 0x74, 0x73, 0x25, 0x32]
   = (0xD9D64B90, 0xD683CBFE, 0x20241BFC, 0x89E789D1, 0x41DCE6BF)"
  by (simp add: sha1_eval del: sha1_round.simps sha1_block.simps)

lemma vector_inner_block3:
  "sha1_block (0xD9D64B90, 0xD683CBFE, 0x20241BFC, 0x89E789D1, 0x41DCE6BF)
    [0x36, 0x46, 0x6F, 0x72, 0x6D, 0x61, 0x74, 0x25, 0x33, 0x44, 0x58, 0x4D, 0x4C, 0x25, 0x32, 0x36,
     0x53, 0x69, 0x67, 0x6E, 0x61, 0x74, 0x75, 0x72, 0x65, 0x4D, 0x65, 0x74, 0x68, 0x6F, 0x64, 0x25,
     0x33, 0x44, 0x48, 0x4D, 0x41, 0x43, 0x2D, 0x53, 0x48, 0x41, 0x31, 0x25, 0x32, 0x36, 0x53, 0x69,
     0x67, 0x6E, 0x61, 0x74, 0x75, 0x72, 0x65, 0x4E, 0x6F, 0x6E, 0x63, 0x65, 0x25, 0x33, 0x44, 0x33]
   = (0xC30DD33D, 0x3FF370BF, 0xBEC406E3, 0xA411D1F4, 0x63CF077E)"
  by (simp add: sha1_eval del: sha1_round.simps sha1_block.simps)

lemma vector_inner_block4:
  "sha1_block (0xC30DD33D, 0x3FF370BF, 0xBEC406E3, 0xA411D1F4, 0x63CF077E)
    [0x65, 0x65, 0x38, 0x63, 0x31, 0x62, 0x38, 0x2D, 0x78, 0x78, 0x78, 0x78, 0x2D, 0x78, 0x78, 0x78,
     0x78, 0x2D, 0x78, 0x78, 0x78, 0x78, 0x2D, 0x78, 0x78, 0x78, 0x78, 0x78, 0x78, 0x78, 0x78, 0x78,
     0x25, 0x32, 0x36, 0x53, 0x69, 0x67, 0x6E, 0x61, 0x74, 0x75, 0x72, 0x65, 0x56, 0x65, 0x72, 0x73,
     0x69, 0x6F, 0x6E, 0x25, 0x33, 0x44, 0x31, 0x2E, 0x30, 0x25, 0x32, 0x36, 0x54, 0x69, 0x6D, 0x65]
   = (0x116686B6, 0x83148BA0, 0xAC9582D4, 0x2EE435DA, 0x601F7855)"
  by (simp add: sha1_eval del: sha1_round.simps sha1_block.simps)

lemma vector_inner_block5:
  "sha1_block (0x116686B6, 0x83148BA0, 0xAC9582D4, 0x2EE435DA, 0x601F7855)
    [0x73, 0x74, 0x61, 0x6D, 0x70, 0x25, 0x33, 0x44, 0x32, 0x30, 0x31, 0x36, 0x2D, 0x30, 0x32, 0x2D,
     0x32, 0x33, 0x54, 0x31, 0x32, 0x25, 0x32, 0x35, 0x33, 0x41, 0x34, 0x36, 0x25, 0x32, 0x35, 0x33,
     0x41, 0x32, 0x34, 0x5A, 0x25, 0x32, 0x36, 0x56, 0x65, 0x72, 0x73, 0x69, 0x6F, 0x6E, 0x25, 0x33,
     0x44, 0x32, 0x30, 0x31, 0x34, 0x2D, 0x30, 0x35, 0x2D, 0x32, 0x36, 0x80, 0x00, 0x00, 0x00, 0x00]
   = (0x50AD7C05, 0x29D00DC8, 0x346E1FB3, 0x2194A7F9, 0x2B2CE6A4)"
  by (simp add: sha1_eval del: sha1_round.simps sha1_block.simps)

lemma vector_inner_block6:
  "sha1_block (0x50AD7C05, 0x29D00DC8, 0x346E1FB3, 0x2194A7F9, 0x2B2CE6A4)
    [0x00, 0x00, 0x00, 0x00, 0x00, 0x00, 0x00, 0x00, 0x00, 0x00, 0x00, 0x00, 0x00, 0x00, 0x00, 0x00,
     0x00, 0x00, 0x00, 0x00, 0x00, 0x00, 0x00, 0x00, 0x00, 0x00, 0x00, 0x00, 0x00, 0x00, 0x00, 0x00,
     0x00, 0x00, 0x00, 0x00, 0x00, 0x00, 0x00, 0x00, 0x00, 0x00, 0x00, 0x00, 0x00, 0x00, 0x00, 0x00,
     0x00, 0x00, 0x00, 0x00, 0x00, 0x00, 0x00, 0x00, 0x00, 0x00, 0x00, 0x00, 0x00, 0x00, 0x09, 0xD8]
   = (0x42588CF2, 0x4091B7B5, 0x8FD63D3D, 0x8112B1E0, 0x2E25A6AB)"
  by (simp add: sha1_eval del: sha1_round.simps sha1_block.simps)

lemma vector_outer_block1:
  "sha1_block (0x67452301, 0xEFCDAB89, 0x98BADCFE, 0x10325476, 0xC3D2E1F0)
    [0x28, 0x39, 0x2F, 0x28, 0x2F, 0x39, 0x3F, 0x2E, 0x39, 0x28, 0x7A, 0x5C, 0x5C, 0x5C, 0x5C, 0x5C,
     0x5C, 0x5C, 0x5C, 0x5C, 0x5C, 0x5C, 0x5C, 0x5C, 0x5C, 0x5C, 0x5C, 0x5C, 0x5C, 0x5C, 0x5C, 0x5C,
     0x5C, 0x5C, 0x5C, 0x5C, 0x5C, 0x5C, 0x5C, 0x5C, 0x5C, 0x5C, 0x5C, 0x5C, 0x5C, 0x5C, 0x5C, 0x5C,
     0x5C, 0x5C, 0x5C, 0x5C, 0x5C, 0x5C, 0x5C, 0x5C, 0x5C, 0x5C, 0x5C, 0x5C, 0x5C, 0x5C, 0x5C, 0x5C]
   = (0xEBA7A0CF, 0x60E61C53, 0xCC965A83, 0x37B073F9, 0x528AD262)"
  by (simp add: sha1_eval del: sha1_round.simps sha1_block.simps)

lemma vector_outer_block2:
  "sha1_block (0xEBA7A0CF, 0x60E61C53, 0xCC965A83, 0x37B073F9, 0x528AD262)
    [0x42, 0x58, 0x8C, 0xF2, 0x40, 0x91, 0xB7, 0xB5, 0x8F, 0xD6, 0x3D, 0x3D, 0x81, 0x12, 0xB1, 0xE0,
     0x2E, 0x25, 0xA6, 0xAB, 0x80, 0x00, 0x00, 0x00, 0x00, 0x00, 0x00, 0x00, 0x00, 0x00, 0x00, 0x00,
     0x00, 0x00, 0x00, 0x00, 0x00, 0x00, 0x00, 0x00, 0x00, 0x00, 0x00, 0x00, 0x00, 0x00, 0x00, 0x00,
     0x00, 0x00, 0x00, 0x00, 0x00, 0x00, 0x00, 0x00, 0x00, 0x00, 0x00, 0x00, 0x00, 0x00, 0x02, 0xA0]
   = (0xAC046C17, 0xE04883CA, 0x59E1ED25, 0x9FA67DEA, 0x504C0E6B)"
  by (simp add: sha1_eval del: sha1_round.simps sha1_block.simps)

lemma vector_inner_hash_length: "length (map (\<lambda>b. b XOR 0x36) (vector_key @ replicate 53 0) @ vector_message) = 315"
  by (simp add: vector_key_def vector_message_def vector_inner_def)

lemma vector_inner_hash_pad:
  "sha1_pad (map (\<lambda>b. b XOR 0x36) (vector_key @ replicate 53 0) @ vector_message) =
    [0x42, 0x53, 0x45, 0x42, 0x45, 0x53, 0x55, 0x44, 0x53, 0x42, 0x10, 0x36, 0x36, 0x36, 0x36, 0x36,
     0x36, 0x36, 0x36, 0x36, 0x36, 0x36, 0x36, 0x36, 0x36, 0x36, 0x36, 0x36, 0x36, 0x36, 0x36, 0x36,
     0x36, 0x36, 0x36, 0x36, 0x36, 0x36, 0x36, 0x36, 0x36, 0x36, 0x36, 0x36, 0x36, 0x36, 0x36, 0x36,
     0x36, 0x36, 0x36, 0x36, 0x36, 0x36, 0x36, 0x36, 0x36, 0x36, 0x36, 0x36, 0x36, 0x36, 0x36, 0x36,
     0x47, 0x45, 0x54, 0x26, 0x25, 0x32, 0x46, 0x26, 0x41, 0x63, 0x63, 0x65, 0x73, 0x73, 0x4B, 0x65,
     0x79, 0x49, 0x64, 0x25, 0x33, 0x44, 0x74, 0x65, 0x73, 0x74, 0x69, 0x64, 0x25, 0x32, 0x36, 0x41,
     0x63, 0x74, 0x69, 0x6F, 0x6E, 0x25, 0x33, 0x44, 0x44, 0x65, 0x73, 0x63, 0x72, 0x69, 0x62, 0x65,
     0x44, 0x65, 0x64, 0x69, 0x63, 0x61, 0x74, 0x65, 0x64, 0x48, 0x6F, 0x73, 0x74, 0x73, 0x25, 0x32,
     0x36, 0x46, 0x6F, 0x72, 0x6D, 0x61, 0x74, 0x25, 0x33, 0x44, 0x58, 0x4D, 0x4C, 0x25, 0x32, 0x36,
     0x53, 0x69, 0x67, 0x6E, 0x61, 0x74, 0x75, 0x72, 0x65, 0x4D, 0x65, 0x74, 0x68, 0x6F, 0x64, 0x25,
     0x33, 0x44, 0x48, 0x4D, 0x41, 0x43, 0x2D, 0x53, 0x48, 0x41, 0x31, 0x25, 0x32, 0x36, 0x53, 0x69,
     0x67, 0x6E, 0x61, 0x74, 0x75, 0x72, 0x65, 0x4E, 0x6F, 0x6E, 0x63, 0x65, 0x25, 0x33, 0x44, 0x33,
     0x65, 0x65, 0x38, 0x63, 0x31, 0x62, 0x38, 0x2D, 0x78, 0x78, 0x78, 0x78, 0x2D, 0x78, 0x78, 0x78,
     0x78, 0x2D, 0x78, 0x78, 0x78, 0x78, 0x2D, 0x78, 0x78, 0x78, 0x78, 0x78, 0x78, 0x78, 0x78, 0x78,
     0x25, 0x32, 0x36, 0x53, 0x69, 0x67, 0x6E, 0x61, 0x74, 0x75, 0x72, 0x65, 0x56, 0x65, 0x72, 0x73,
     0x69, 0x6F, 0x6E, 0x25, 0x33, 0x44, 0x31, 0x2E, 0x30, 0x25, 0x32, 0x36, 0x54, 0x69, 0x6D, 0x65,
     0x73, 0x74, 0x61, 0x6D, 0x70, 0x25, 0x33, 0x44, 0x32, 0x30, 0x31, 0x36, 0x2D, 0x30, 0x32, 0x2D,
     0x32, 0x33, 0x54, 0x31, 0x32, 0x25, 0x32, 0x35, 0x33, 0x41, 0x34, 0x36, 0x25, 0x32, 0x35, 0x33,
     0x41, 0x32, 0x34, 0x5A, 0x25, 0x32, 0x36, 0x56, 0x65, 0x72, 0x73, 0x69, 0x6F, 0x6E, 0x25, 0x33,
     0x44, 0x32, 0x30, 0x31, 0x34, 0x2D, 0x30, 0x35, 0x2D, 0x32, 0x36, 0x80, 0x00, 0x00, 0x00, 0x00,
     0x00, 0x00, 0x00, 0x00, 0x00, 0x00, 0x00, 0x00, 0x00, 0x00, 0x00, 0x00, 0x00, 0x00, 0x00, 0x00,
     0x00, 0x00, 0x00, 0x00, 0x00, 0x00, 0x00, 0x00, 0x00, 0x00, 0x00, 0x00, 0x00, 0x00, 0x00, 0x00,
     0x00, 0x00, 0x00, 0x00, 0x00, 0x00, 0x00, 0x00, 0x00, 0x00, 0x00, 0x00, 0x00, 0x00, 0x00, 0x00,
     0x00, 0x00, 0x00, 0x00, 0x00, 0x00, 0x00, 0x00, 0x00, 0x00, 0x00, 0x00, 0x00, 0x00, 0x09, 0xD8]"
  unfolding sha1_pad_def vector_inner_hash_length
  by (simp add: vector_key_def vector_message_def vector_inner_def be64_def replicate_numeral_eval)

lemma vector_inner_hash_blocks:
  "sha1_blocks sha1_init
    [0x42, 0x53, 0x45, 0x42, 0x45, 0x53, 0x55, 0x44, 0x53, 0x42, 0x10, 0x36, 0x36, 0x36, 0x36, 0x36,
     0x36, 0x36, 0x36, 0x36, 0x36, 0x36, 0x36, 0x36, 0x36, 0x36, 0x36, 0x36, 0x36, 0x36, 0x36, 0x36,
     0x36, 0x36, 0x36, 0x36, 0x36, 0x36, 0x36, 0x36, 0x36, 0x36, 0x36, 0x36, 0x36, 0x36, 0x36, 0x36,
     0x36, 0x36, 0x36, 0x36, 0x36, 0x36, 0x36, 0x36, 0x36, 0x36, 0x36, 0x36, 0x36, 0x36, 0x36, 0x36,
     0x47, 0x45, 0x54, 0x26, 0x25, 0x32, 0x46, 0x26, 0x41, 0x63, 0x63, 0x65, 0x73, 0x73, 0x4B, 0x65,
     0x79, 0x49, 0x64, 0x25, 0x33, 0x44, 0x74, 0x65, 0x73, 0x74, 0x69, 0x64, 0x25, 0x32, 0x36, 0x41,
     0x63, 0x74, 0x69, 0x6F, 0x6E, 0x25, 0x33, 0x44, 0x44, 0x65, 0x73, 0x63, 0x72, 0x69, 0x62, 0x65,
     0x44, 0x65, 0x64, 0x69, 0x63, 0x61, 0x74, 0x65, 0x64, 0x48, 0x6F, 0x73, 0x74, 0x73, 0x25, 0x32,
     0x36, 0x46, 0x6F, 0x72, 0x6D, 0x61, 0x74, 0x25, 0x33, 0x44, 0x58, 0x4D, 0x4C, 0x25, 0x32, 0x36,
     0x53, 0x69, 0x67, 0x6E, 0x61, 0x74, 0x75, 0x72, 0x65, 0x4D, 0x65, 0x74, 0x68, 0x6F, 0x64, 0x25,
     0x33, 0x44, 0x48, 0x4D, 0x41, 0x43, 0x2D, 0x53, 0x48, 0x41, 0x31, 0x25, 0x32, 0x36, 0x53, 0x69,
     0x67, 0x6E, 0x61, 0x74, 0x75, 0x72, 0x65, 0x4E, 0x6F, 0x6E, 0x63, 0x65, 0x25, 0x33, 0x44, 0x33,
     0x65, 0x65, 0x38, 0x63, 0x31, 0x62, 0x38, 0x2D, 0x78, 0x78, 0x78, 0x78, 0x2D, 0x78, 0x78, 0x78,
     0x78, 0x2D, 0x78, 0x78, 0x78, 0x78, 0x2D, 0x78, 0x78, 0x78, 0x78, 0x78, 0x78, 0x78, 0x78, 0x78,
     0x25, 0x32, 0x36, 0x53, 0x69, 0x67, 0x6E, 0x61, 0x74, 0x75, 0x72, 0x65, 0x56, 0x65, 0x72, 0x73,
     0x69, 0x6F, 0x6E, 0x25, 0x33, 0x44, 0x31, 0x2E, 0x30, 0x25, 0x32, 0x36, 0x54, 0x69, 0x6D, 0x65,
     0x73, 0x74, 0x61, 0x6D, 0x70, 0x25, 0x33, 0x44, 0x32, 0x30, 0x31, 0x36, 0x2D, 0x30, 0x32, 0x2D,
     0x32, 0x33, 0x54, 0x31, 0x32, 0x25, 0x32, 0x35, 0x33, 0x41, 0x34, 0x36, 0x25, 0x32, 0x35, 0x33,
     0x41, 0x32, 0x34, 0x5A, 0x25, 0x32, 0x36, 0x56, 0x65, 0x72, 0x73, 0x69, 0x6F, 0x6E, 0x25, 0x33,
     0x44, 0x32, 0x30, 0x31, 0x34, 0x2D, 0x30, 0x35, 0x2D, 0x32, 0x36, 0x80, 0x00, 0x00, 0x00, 0x00,
     0x00, 0x00, 0x00, 0x00, 0x00, 0x00, 0x00, 0x00, 0x00, 0x00, 0x00, 0x00, 0x00, 0x00, 0x00, 0x00,
     0x00, 0x00, 0x00, 0x00, 0x00, 0x00, 0x00, 0x00, 0x00, 0x00, 0x00, 0x00, 0x00, 0x00, 0x00, 0x00,
     0x00, 0x00, 0x00, 0x00, 0x00, 0x00, 0x00, 0x00, 0x00, 0x00, 0x00, 0x00, 0x00, 0x00, 0x00, 0x00,
     0x00, 0x00, 0x00, 0x00, 0x00, 0x00, 0x00, 0x00, 0x00, 0x00, 0x00, 0x00, 0x00, 0x00, 0x09, 0xD8]
   = (0x42588CF2, 0x4091B7B5, 0x8FD63D3D, 0x8112B1E0, 0x2E25A6AB)"
  by (simp add: sha1_blocks.simps sha1_init_def vector_inner_block1 vector_inner_block2 vector_inner_block3 vector_inner_block4 vector_inner_block5 vector_inner_block6 del: sha1_block.simps)

lemma vector_inner_hash:
  "sha1 (map (\<lambda>b. b XOR 0x36) (vector_key @ replicate 53 0) @ vector_message) = vector_inner"
  unfolding sha1_def vector_inner_hash_pad vector_inner_hash_blocks
  by (simp add: vector_inner_def word32_octets_norm norm8_eval del: word32_octets.simps)

lemma vector_outer_hash_length: "length (map (\<lambda>b. b XOR 0x5C) (vector_key @ replicate 53 0) @ vector_inner) = 84"
  by (simp add: vector_key_def vector_message_def vector_inner_def)

lemma vector_outer_hash_pad:
  "sha1_pad (map (\<lambda>b. b XOR 0x5C) (vector_key @ replicate 53 0) @ vector_inner) =
    [0x28, 0x39, 0x2F, 0x28, 0x2F, 0x39, 0x3F, 0x2E, 0x39, 0x28, 0x7A, 0x5C, 0x5C, 0x5C, 0x5C, 0x5C,
     0x5C, 0x5C, 0x5C, 0x5C, 0x5C, 0x5C, 0x5C, 0x5C, 0x5C, 0x5C, 0x5C, 0x5C, 0x5C, 0x5C, 0x5C, 0x5C,
     0x5C, 0x5C, 0x5C, 0x5C, 0x5C, 0x5C, 0x5C, 0x5C, 0x5C, 0x5C, 0x5C, 0x5C, 0x5C, 0x5C, 0x5C, 0x5C,
     0x5C, 0x5C, 0x5C, 0x5C, 0x5C, 0x5C, 0x5C, 0x5C, 0x5C, 0x5C, 0x5C, 0x5C, 0x5C, 0x5C, 0x5C, 0x5C,
     0x42, 0x58, 0x8C, 0xF2, 0x40, 0x91, 0xB7, 0xB5, 0x8F, 0xD6, 0x3D, 0x3D, 0x81, 0x12, 0xB1, 0xE0,
     0x2E, 0x25, 0xA6, 0xAB, 0x80, 0x00, 0x00, 0x00, 0x00, 0x00, 0x00, 0x00, 0x00, 0x00, 0x00, 0x00,
     0x00, 0x00, 0x00, 0x00, 0x00, 0x00, 0x00, 0x00, 0x00, 0x00, 0x00, 0x00, 0x00, 0x00, 0x00, 0x00,
     0x00, 0x00, 0x00, 0x00, 0x00, 0x00, 0x00, 0x00, 0x00, 0x00, 0x00, 0x00, 0x00, 0x00, 0x02, 0xA0]"
  unfolding sha1_pad_def vector_outer_hash_length
  by (simp add: vector_key_def vector_message_def vector_inner_def be64_def replicate_numeral_eval)

lemma vector_outer_hash_blocks:
  "sha1_blocks sha1_init
    [0x28, 0x39, 0x2F, 0x28, 0x2F, 0x39, 0x3F, 0x2E, 0x39, 0x28, 0x7A, 0x5C, 0x5C, 0x5C, 0x5C, 0x5C,
     0x5C, 0x5C, 0x5C, 0x5C, 0x5C, 0x5C, 0x5C, 0x5C, 0x5C, 0x5C, 0x5C, 0x5C, 0x5C, 0x5C, 0x5C, 0x5C,
     0x5C, 0x5C, 0x5C, 0x5C, 0x5C, 0x5C, 0x5C, 0x5C, 0x5C, 0x5C, 0x5C, 0x5C, 0x5C, 0x5C, 0x5C, 0x5C,
     0x5C, 0x5C, 0x5C, 0x5C, 0x5C, 0x5C, 0x5C, 0x5C, 0x5C, 0x5C, 0x5C, 0x5C, 0x5C, 0x5C, 0x5C, 0x5C,
     0x42, 0x58, 0x8C, 0xF2, 0x40, 0x91, 0xB7, 0xB5, 0x8F, 0xD6, 0x3D, 0x3D, 0x81, 0x12, 0xB1, 0xE0,
     0x2E, 0x25, 0xA6, 0xAB, 0x80, 0x00, 0x00, 0x00, 0x00, 0x00, 0x00, 0x00, 0x00, 0x00, 0x00, 0x00,
     0x00, 0x00, 0x00, 0x00, 0x00, 0x00, 0x00, 0x00, 0x00, 0x00, 0x00, 0x00, 0x00, 0x00, 0x00, 0x00,
     0x00, 0x00, 0x00, 0x00, 0x00, 0x00, 0x00, 0x00, 0x00, 0x00, 0x00, 0x00, 0x00, 0x00, 0x02, 0xA0]
   = (0xAC046C17, 0xE04883CA, 0x59E1ED25, 0x9FA67DEA, 0x504C0E6B)"
  by (simp add: sha1_blocks.simps sha1_init_def vector_outer_block1 vector_outer_block2 del: sha1_block.simps)

lemma vector_outer_hash:
  "sha1 (map (\<lambda>b. b XOR 0x5C) (vector_key @ replicate 53 0) @ vector_inner) = vector_mac"
  unfolding sha1_def vector_outer_hash_pad vector_outer_hash_blocks
  by (simp add: vector_mac_def word32_octets_norm norm8_eval del: word32_octets.simps)

lemma vector_hmac_sha1: "hmac_sha1 vector_key vector_message = vector_mac"
proof -
  have k: "(if length vector_key > 64 then sha1 vector_key else vector_key) = vector_key"
    by (simp add: vector_key_def)
  have r: "64 - length vector_key = 53"
    by (simp add: vector_key_def)
  show ?thesis
    unfolding hmac_sha1_def Let_def k r vector_inner_hash vector_outer_hash
    by (rule refl)
qed

lemma vector_key_utf8: "utf8_encode (js ''testsecret'' @ js ''&'') = vector_key"
  by (simp add: js_def vector_key_def is_lead_def is_trail_def utf8_octets_def)

lemma vector_message_utf8: "utf8_encode test_string_to_sign = vector_message"
  by (simp add: test_string_to_sign_def js_def vector_message_def is_lead_def is_trail_def
      utf8_octets_def)

lemma vector_mac_base64: "encode vector_mac = js ''rARsF+BIg8pZ4e0ln6Z96lBMDms=''"
  by (simp add: vector_mac_def base64_char_def js_def)

text \<open>
  C2. Signing the string to sign of the vector with the secret \<^verbatim>\<open>testsecret\<close> gives
  \<^verbatim>\<open>rARsF+BIg8pZ4e0ln6Z96lBMDms=\<close>: the key is the secret followed by \<^verbatim>\<open>&\<close>, the MAC is
  HMAC-SHA1 of the UTF-8 octets, and the result is its base64 form with padding.
\<close>

theorem C2_signature_vector:
  "hmac test_string_to_sign (js ''testsecret'') = js ''rARsF+BIg8pZ4e0ln6Z96lBMDms=''"
  unfolding hmac_def Let_def vector_key_utf8 vector_message_utf8 vector_hmac_sha1
  by (rule vector_mac_base64)

section \<open>The canonical query string\<close>

lemma encodeURIComponent_error: "encodeURIComponent s = Inl e \<Longrightarrow> e = URIError"
  by (induction s arbitrary: e rule: encodeURIComponent.induct)
     (auto split: if_splits sum.splits list.splits)

lemma specParams_forEach_Cons:
  "specParams_forEach params (v # vs) sign =
     (if v \<noteq> js ''Signature'' then
        (case and_then (js_String (object_get params v)) encodeURIComponent of
           Inl e \<Rightarrow> Inl e
         | Inr enc \<Rightarrow> specParams_forEach params vs (sign @ js ''&'' @ v @ js ''='' @ enc))
      else specParams_forEach params vs sign)"
  by (simp add: and_then_def split: sum.splits)

lemma specParams_forEach_Inr:
  "specParams_forEach params vs sign = Inr s \<longleftrightarrow>
     (\<exists>kes. map fst kes = filter (\<lambda>k. k \<noteq> js ''Signature'') vs \<and> encodes_values params kes \<and>
        s = sign @ concat (map (\<lambda>(k, e). js ''&'' @ k @ js ''='' @ e) kes))"
proof (induction vs arbitrary: sign)
  case Nil
  show ?case by (auto simp: encodes_values_def)
next
  case (Cons v vs)
  show ?case
  proof (cases "v = js ''Signature''")
    case True
    then show ?thesis using Cons.IH by simp
  next
    case False
    show ?thesis
    proof (cases "and_then (js_String (object_get params v)) encodeURIComponent")
      case (Inl e)
      have "\<not> (\<exists>kes. map fst kes = v # filter (\<lambda>k. k \<noteq> js ''Signature'') vs \<and> encodes_values params kes)"
        using Inl by (auto simp: encodes_values_def Cons_eq_map_conv)
      then show ?thesis using False Inl
        by (auto simp: specParams_forEach_Cons simp del: specParams_forEach.simps)
    next
      case (Inr enc)
      have "(\<exists>kes. map fst kes = v # filter (\<lambda>k. k \<noteq> js ''Signature'') vs \<and> encodes_values params kes \<and>
                s = sign @ concat (map (\<lambda>(k, e). js ''&'' @ k @ js ''='' @ e) kes))
          \<longleftrightarrow> (\<exists>kes'. map fst kes' = filter (\<lambda>k. k \<noteq> js ''Signature'') vs \<and> encodes_values params kes' \<and>
                s = (sign @ js ''&'' @ v @ js ''='' @ enc) @ concat (map (\<lambda>(k, e). js ''&'' @ k @ js ''='' @ e) kes'))"
        (is "?L \<longleftrightarrow> ?R")
      proof
        assume ?L
        then obtain kes where k: "map fst kes = v # filter (\<lambda>k. k \<noteq> js ''Signature'') vs"
          "encodes_values params kes" "s = sign @ concat (map (\<lambda>(k, e). js ''&'' @ k @ js ''='' @ e) kes)"
          by (elim exE conjE) (rule that)
        then obtain e kes' where kes: "kes = (v, e) # kes'"
          by (cases kes) auto
        with k Inr have "e = enc" by (simp add: encodes_values_def)
        with k kes show ?R by (auto simp: encodes_values_def)
      next
        assume ?R
        then obtain kes' where k: "map fst kes' = filter (\<lambda>k. k \<noteq> js ''Signature'') vs"
          "encodes_values params kes'"
          "s = (sign @ js ''&'' @ v @ js ''='' @ enc) @ concat (map (\<lambda>(k, e). js ''&'' @ k @ js ''='' @ e) kes')"
          by (elim exE conjE) (rule that)
        show ?L
          by (rule exI [of _ "(v, enc) # kes'"]) (use k Inr in \<open>simp add: encodes_values_def\<close>)
      qed
      then show ?thesis using False Inr Cons.IH [of "sign @ js ''&'' @ v @ js ''='' @ enc"]
        by (simp add: specParams_forEach_Cons del: specParams_forEach.simps)
    qed
  qed
qed

lemma drop_amp_render:
  "drop 1 (concat (map (\<lambda>(k, e). js ''&'' @ k @ js ''='' @ e) kes)) = render_query kes"
proof (induction kes rule: induct_list012)
  case 1
  show ?case by (simp add: render_query_def)
next
  case (2 x)
  show ?case by (cases x) (simp add: render_query_def js_def)
next
  case (3 x y zs)
  have "concat (map (\<lambda>(k, e). js ''&'' @ k @ js ''='' @ e) (y # zs))
      = js ''&'' @ drop 1 (concat (map (\<lambda>(k, e). js ''&'' @ k @ js ''='' @ e) (y # zs)))"
    by (cases y) (simp add: js_def)
  then show ?case using 3
    by (cases x) (simp add: render_query_def js_def)
qed

lemma specParams_Inr:
  "specParams params = Inr s \<longleftrightarrow>
     (\<exists>kes. map fst kes = filter (\<lambda>k. k \<noteq> js ''Signature'') (sort (Object_keys params)) \<and>
        encodes_values params kes \<and> s = render_query kes)"
proof -
  have "specParams params = Inr s \<longleftrightarrow>
      (\<exists>sign. specParams_forEach params (sort (Object_keys params)) [] = Inr sign \<and> s = drop 1 sign)"
    by (auto simp: specParams_def split: sum.splits)
  also have "\<dots> \<longleftrightarrow>
      (\<exists>kes. map fst kes = filter (\<lambda>k. k \<noteq> js ''Signature'') (sort (Object_keys params)) \<and>
         encodes_values params kes \<and>
         s = drop 1 (concat (map (\<lambda>(k, e). js ''&'' @ k @ js ''='' @ e) kes)))"
    unfolding specParams_forEach_Inr by (simp only: append_Nil) blast
  finally show ?thesis
    by (simp only: drop_amp_render)
qed


lemma uriUnescaped_unat: "uriUnescaped c \<longleftrightarrow> unreserved (unat c) \<or> kept_mark (unat c)"
  by (auto simp: uriUnescaped_def uriAlpha_def DecimalDigit_def uriMark_def unreserved_def
      kept_mark_def word_le_nat_alt word_unat_eq_iff)

lemma uriUnescaped_not_surrogate: "uriUnescaped c \<Longrightarrow> \<not> is_lead c \<and> \<not> is_trail c"
  by (auto simp: uriUnescaped_def uriAlpha_def DecimalDigit_def uriMark_def is_lead_def is_trail_def
      word_le_nat_alt)

lemma pair_code_point_escape: "escape_code_point (pair_code_point c d) = percent_code_point (pair_code_point c d)"
  by (simp add: escape_code_point_def pair_code_point_def unreserved_def kept_mark_def)

lemma encodeURIComponent_code_points:
  "encodeURIComponent s =
     (case code_points s of
        None \<Rightarrow> Inl URIError
      | Some cps \<Rightarrow> Inr (concat (map escape_code_point cps)))"
proof (induction s rule: encodeURIComponent.induct)
  case 1
  show ?case by simp
next
  case (2 c cs)
  consider (keep) "uriUnescaped c" | (trail) "\<not> uriUnescaped c" "is_trail c"
    | (lead) "\<not> uriUnescaped c" "\<not> is_trail c" "is_lead c"
    | (other) "\<not> uriUnescaped c" "\<not> is_trail c" "\<not> is_lead c"
    by blast
  then show ?case
  proof cases
    case keep
    then have "escape_code_point (unat c) = [c]"
      by (simp add: escape_code_point_def uriUnescaped_unat)
    with keep 2(1) uriUnescaped_not_surrogate [OF keep] show ?thesis
      by (simp split: option.splits)
  next
    case trail
    then show ?thesis by simp
  next
    case lead
    show ?thesis
    proof (cases cs)
      case Nil
      with lead show ?thesis by simp
    next
      case (Cons d ds)
      with lead 2(2) [of d ds] show ?thesis
        by (simp add: pair_code_point_escape split: option.splits)
    qed
  next
    case other
    then have "escape_code_point (unat c) = percent_code_point (unat c)"
      by (simp add: escape_code_point_def uriUnescaped_unat)
    with other 2(3) show ?thesis
      by (simp split: option.splits)
  qed
qed

lemma escape_examples:
  "escape_code_point 0x2B = js ''%2B''" "escape_code_point 0x20 = js ''%20''"
  "escape_code_point 0x2A = js ''*''"
  by (simp_all add: escape_code_point_def unreserved_def kept_mark_def percent_defs js_def)


lemma specParams_forEach_cong:
  "map_of p = map_of q \<Longrightarrow> specParams_forEach p vs sign = specParams_forEach q vs sign"
  by (induction vs arbitrary: sign) (simp_all add: object_get_def split: sum.splits)

lemma sort_keys_unique:
  assumes "distinct (map fst p)" "distinct (map fst q)" "map_of p = map_of q"
  shows "sort (Object_keys p) = sort (Object_keys q)"
proof -
  have "set (map fst p) = set (map fst q)"
    using assms(3) by (metis dom_map_of_conv_image_fst set_map)
  then show ?thesis
    unfolding Object_keys_def
    by (intro sorted_distinct_set_unique) (simp_all add: assms)
qed

lemma specParams_same_mapping:
  assumes "distinct (map fst p)" "distinct (map fst q)" "map_of p = map_of q"
  shows "specParams p = specParams q"
  by (simp add: specParams_def sort_keys_unique [OF assms] specParams_forEach_cong [OF assms(3)])

lemma unat_of_nat_small: "k < 128 \<Longrightarrow> unat (of_nat k :: code_unit) < 128"
  by (simp add: unat_of_nat)

lemma base64_char_ascii: "unat (base64_char n) < 128"
proof -
  consider "n < 26" | "26 \<le> n" "n < 52" | "52 \<le> n" "n < 62" | "n = 62" | "62 < n"
    by linarith
  then show ?thesis
  proof cases
    case 1
    then have "base64_char n = of_nat (0x41 + n)" "0x41 + n < 128"
      by (simp_all add: base64_char_def del: of_nat_add of_nat_numeral of_nat_diff)
    then show ?thesis by (simp only: unat_of_nat_small)
  next
    case 2
    then have "base64_char n = of_nat (0x61 + (n - 26))" "0x61 + (n - 26) < 128"
      by (simp_all add: base64_char_def del: of_nat_add of_nat_numeral of_nat_diff)
    then show ?thesis by (simp only: unat_of_nat_small)
  next
    case 3
    then have "base64_char n = of_nat (0x30 + (n - 52))" "0x30 + (n - 52) < 128"
      by (simp_all add: base64_char_def del: of_nat_add of_nat_numeral of_nat_diff)
    then show ?thesis by (simp only: unat_of_nat_small)
  next
    case 4
    then show ?thesis by (simp add: base64_char_def)
  next
    case 5
    then show ?thesis by (simp add: base64_char_def)
  qed
qed

lemma encode_ascii: "list_all (\<lambda>c. unat c < 128) (encode bs)"
  by (induction bs rule: encode.induct) (simp_all add: base64_char_ascii)

lemma ascii_code_points: "list_all (\<lambda>c. unat c < 128) s \<Longrightarrow> code_points s = Some (map unat s)"
  by (induction s) (auto simp: is_lead_def is_trail_def word_le_nat_alt)

lemma encodeURIComponent_hmac:
  "encodeURIComponent (hmac sign secret) = Inr (concat (map escape_code_point (map unat (hmac sign secret))))"
  by (simp add: encodeURIComponent_code_points ascii_code_points hmac_def encode_ascii Let_def)

lemma encodeURIComponent_percent_encode:
  "encodeURIComponent v = Inr e \<longleftrightarrow> percent_encode v = Some e"
  by (auto simp: encodeURIComponent_code_points percent_encode_def split: option.splits)

lemma and_then_Inr_iff: "and_then r f = Inr y \<longleftrightarrow> (\<exists>x. r = Inr x \<and> f x = Inr y)"
  by (cases r) (simp_all add: and_then_def)

text \<open>
  What the program writes for a value: of the string of the value, every code point is
  percent-encoded but the unreserved characters of RFC 3986 and the five marks
  \<^verbatim>\<open>! ' ( ) *\<close>, which are copied.
\<close>

lemma specParams_percent_encode:
  "specParams params = Inr s \<longleftrightarrow>
     (\<exists>kes. map fst kes = filter (\<lambda>k. k \<noteq> js ''Signature'') (sort (Object_keys params)) \<and>
        list_all (\<lambda>(k, e). \<exists>v. js_String (object_get params k) = Inr v \<and>
                    percent_encode v = Some e) kes \<and>
        s = render_query kes)"
  by (simp add: specParams_Inr encodes_values_def and_then_Inr_iff
      encodeURIComponent_percent_encode)

text \<open>
  C3. The claim has every character of a value that is not an unreserved character of
  RFC 3986 percent-encoded, the asterisk by name. The program copies the asterisk: for
  the value \<^verbatim>\<open>*\<close> it writes \<^verbatim>\<open>k=*\<close>, not \<^verbatim>\<open>k=%2A\<close>, and it copies the five marks
  \<^verbatim>\<open>! ' ( ) *\<close> alike. The rest of the claim holds there: \<^verbatim>\<open>+\<close> is written \<^verbatim>\<open>%2B\<close> and
  a space \<^verbatim>\<open>%20\<close>.
\<close>

theorem C3_star_is_kept:
  "specParams [(js ''k'', Str (js ''*''))] = Inr (js ''k=*'') \<and>
   specParams [(js ''k'', Str (js ''*''))] \<noteq> Inr (js ''k=%2A'') \<and>
   specParams [(js ''k'', Str [0x21, 0x27, 0x28, 0x29, 0x2A])]
     = Inr (js ''k='' @ [0x21, 0x27, 0x28, 0x29, 0x2A]) \<and>
   specParams [(js ''k'', Str (js ''+ ''))] = Inr (js ''k=%2B%20'')"
  by (simp add: specParams_def Object_keys_def object_get_def js_def char_class_defs percent_defs)

text \<open>
  Where a value cannot be converted to a string or encoded, the call raises and there is
  no canonical string: an object value with a \<^verbatim>\<open>toString\<close> property of its own, and a
  string with an unpaired surrogate.
\<close>

lemma specParams_raises:
  "specParams [(js ''a'', Str (js ''1'')), (js ''k'', Obj [(js ''toString'', Str (js ''x''))])]
     = Inl TypeError"
  "specParams [(js ''a'', Str (js ''1'')), (js ''k'', Str [0xD800])] = Inl URIError"
  by (simp_all add: specParams_def Object_keys_def object_get_def js_def char_class_defs)

text \<open>
  C4. The canonical string \<^verbatim>\<open>specParams\<close> produces is the rendering of one pair for
  each key of the mapping other than \<^verbatim>\<open>Signature\<close>, with the encoded value of that key:
  an entry whose key is exactly \<^verbatim>\<open>Signature\<close> is never in it, and every other entry
  is. A string is produced exactly when every value of those keys can be converted and
  encoded.
\<close>

theorem C4_Signature_excluded:
  "(specParams params = Inr s \<longleftrightarrow>
      (\<exists>kes. map fst kes = filter (\<lambda>k. k \<noteq> js ''Signature'') (sort (Object_keys params)) \<and>
         encodes_values params kes \<and> s = render_query kes)) \<and>
   set (filter (\<lambda>k. k \<noteq> js ''Signature'') (sort (Object_keys params))) =
     set (Object_keys params) - {js ''Signature''}"
  by (auto simp: specParams_Inr)

text \<open>
  C5. \<^verbatim>\<open>specParams\<close> reads nothing but its argument, so two runs on one mapping agree.
  Two property lists with distinct keys that denote the same mapping (the same entries,
  inserted in any order) give the same result, and the pairs of the result are in
  ascending order of their keys, compared code unit by code unit (the order of the bytes
  for ASCII keys).
\<close>

theorem C5_insertion_order_irrelevant:
  assumes "distinct (Object_keys p)" and "distinct (Object_keys q)" and "map_of p = map_of q"
  shows "specParams p = specParams q \<and>
    (specParams p = Inr s \<longrightarrow>
       (\<exists>kes. s = render_query kes \<and> encodes_values p kes \<and>
          sorted (map fst kes) \<and> distinct (map fst kes)))"
proof
  show "specParams p = specParams q"
    by (rule specParams_same_mapping) (use assms in \<open>simp_all add: Object_keys_def\<close>)
  show "specParams p = Inr s \<longrightarrow>
       (\<exists>kes. s = render_query kes \<and> encodes_values p kes \<and>
          sorted (map fst kes) \<and> distinct (map fst kes))"
  proof
    assume "specParams p = Inr s"
    then obtain kes where kes:
      "map fst kes = filter (\<lambda>k. k \<noteq> js ''Signature'') (sort (Object_keys p))"
      "encodes_values p kes" "s = render_query kes"
      unfolding specParams_Inr by (elim exE conjE) (rule that)
    have "sorted (map fst kes)" "distinct (map fst kes)"
      using assms(1) by (simp_all add: kes(1) sorted_wrt_filter Object_keys_def)
    with kes show "\<exists>kes. s = render_query kes \<and> encodes_values p kes \<and>
          sorted (map fst kes) \<and> distinct (map fst kes)"
      by blast
  qed
qed

text \<open>The two insertion orders of a mapping with the keys \<^verbatim>\<open>a\<close> and \<^verbatim>\<open>b\<close>.\<close>

theorem C5_witness:
  "specParams [(js ''b'', Str (js ''2'')), (js ''a'', Str (js ''1''))]
     = specParams [(js ''a'', Str (js ''1'')), (js ''b'', Str (js ''2''))] \<and>
   specParams [(js ''b'', Str (js ''2'')), (js ''a'', Str (js ''1''))] = Inr (js ''a=1&b=2'') \<and>
   (\<exists>kes. js ''a=1&b=2'' = render_query kes \<and>
      encodes_values [(js ''b'', Str (js ''2'')), (js ''a'', Str (js ''1''))] kes \<and>
      sorted (map fst kes) \<and> distinct (map fst kes))"
proof -
  have eq: "specParams [(js ''b'', Str (js ''2'')), (js ''a'', Str (js ''1''))] = Inr (js ''a=1&b=2'')"
    by (simp add: specParams_def Object_keys_def object_get_def js_def char_class_defs percent_defs)
  have "distinct (Object_keys [(js ''b'', Str (js ''2'')), (js ''a'', Str (js ''1''))])"
    "distinct (Object_keys [(js ''a'', Str (js ''1'')), (js ''b'', Str (js ''2''))])"
    "map_of [(js ''b'', Str (js ''2'')), (js ''a'', Str (js ''1''))]
       = map_of [(js ''a'', Str (js ''1'')), (js ''b'', Str (js ''2''))]"
    by (auto simp: Object_keys_def js_def)
  from C5_insertion_order_irrelevant [OF this, of "js ''a=1&b=2''"] eq
  show ?thesis by simp
qed

section \<open>The requests\<close>

lemma js_String_elements_strings: "js_String_elements (map Str xs) = Inr xs"
  by (induction xs) simp_all

lemma js_String_strings: "js_String (Arr (map Str xs)) = Inr (join (js '','') xs)"
  by (simp add: js_String_elements_strings)

lemma signed_get_fetch:
  assumes "specParams params = Inr paramsStr" and "stringToSign GET paramsStr = Inr strToSign"
  shows "signed_get this w params =
    fetch_json w (endPoint this @ js ''/?'' @ paramsStr @ js ''&Signature='' @
      concat (map escape_code_point (map unat (hmac strToSign (accessKeySecret this)))))"
  using assms by (simp add: signed_get_def and_then_def encodeURIComponent_hmac Let_def)

lemma example_send_canonical:
  "specParams (sendSMS_params example_client (example_world body)
      [js ''13800000000'', js ''13900000000''] (js ''shop'') (js ''SMS_1'') (Some (js ''{}'')))
   = Inr (js (''AccessKeyId=testid&Action=SendSms&Format=JSON'' @
        ''&PhoneNumbers=13800000000%2C13900000000&SignName=shop&SignatureMethod=HMAC-SHA1'' @
        ''&SignatureNonce=1234567&SignatureVersion=1.0&TemplateCode=SMS_1&TemplateParam=%7B%7D'' @
        ''&Timestamp=2022-08-12T03%3A04%3A05.678Z&Version=2017-05-25''))"
  by (simp add: example_defs eval_defs)

lemma example_query_canonical:
  "specParams (querySendDetails_params example_client (example_world body)
      (js ''13800000000'') (js ''20220812'') 10 1 None)
   = Inr (js (''AccessKeyId=testid&Action=QuerySendDetails&CurrentPage=1&Format=JSON'' @
        ''&PageSize=10&PhoneNumber=13800000000&SendDate=20220812&SignatureMethod=HMAC-SHA1'' @
        ''&SignatureNonce=1234567&SignatureVersion=1.0'' @
        ''&Timestamp=2022-08-12T03%3A04%3A05.678Z&Version=2017-05-25''))"
  by (simp add: example_defs eval_defs)

lemma stringToSign_ascii:
  "list_all (\<lambda>c. unat c < 128) paramsStr \<Longrightarrow> \<exists>t. stringToSign method paramsStr = Inr t"
  by (simp add: stringToSign_def encodeURIComponent_code_points ascii_code_points)

lemma example_send_request:
  "signed_get example_client (example_world body)
     (sendSMS_params example_client (example_world body)
        [js ''13800000000'', js ''13900000000''] (js ''shop'') (js ''SMS_1'') (Some (js ''{}'')))
   = Inr body"
proof -
  obtain t where "stringToSign GET (js (''AccessKeyId=testid&Action=SendSms&Format=JSON'' @
        ''&PhoneNumbers=13800000000%2C13900000000&SignName=shop&SignatureMethod=HMAC-SHA1'' @
        ''&SignatureNonce=1234567&SignatureVersion=1.0&TemplateCode=SMS_1&TemplateParam=%7B%7D'' @
        ''&Timestamp=2022-08-12T03%3A04%3A05.678Z&Version=2017-05-25'')) = Inr t"
    using stringToSign_ascii [of _ GET] by (fastforce simp: js_def)
  from signed_get_fetch [OF example_send_canonical this] show ?thesis
    by (simp add: example_world_def)
qed

lemma example_query_request:
  "signed_get example_client (example_world body)
     (querySendDetails_params example_client (example_world body)
        (js ''13800000000'') (js ''20220812'') 10 1 None)
   = Inr body"
proof -
  obtain t where "stringToSign GET (js (''AccessKeyId=testid&Action=QuerySendDetails&CurrentPage=1&Format=JSON'' @
        ''&PageSize=10&PhoneNumber=13800000000&SendDate=20220812&SignatureMethod=HMAC-SHA1'' @
        ''&SignatureNonce=1234567&SignatureVersion=1.0'' @
        ''&Timestamp=2022-08-12T03%3A04%3A05.678Z&Version=2017-05-25'')) = Inr t"
    using stringToSign_ascii [of _ GET] by (fastforce simp: js_def)
  from signed_get_fetch [OF example_query_canonical this] show ?thesis
    by (simp add: example_world_def)
qed

lemma specParams_maps_key:
  assumes s: "specParams params = Inr s" and d: "distinct (Object_keys params)"
    and k: "k \<in> set (Object_keys params)" "k \<noteq> js ''Signature''"
  shows "\<exists>kes e. s = render_query kes \<and>
           map fst kes = filter (\<lambda>k. k \<noteq> js ''Signature'') (sort (Object_keys params)) \<and>
           encodes_values params kes \<and>
           map_of kes k = Some e \<and>
           and_then (js_String (object_get params k)) encodeURIComponent = Inr e"
proof -
  from s obtain kes where kes:
    "map fst kes = filter (\<lambda>k. k \<noteq> js ''Signature'') (sort (Object_keys params))"
    "encodes_values params kes" "s = render_query kes"
    unfolding specParams_Inr by (elim exE conjE) (rule that)
  from k have "k \<in> set (map fst kes)" by (simp add: kes(1))
  then obtain e where e: "(k, e) \<in> set kes" by auto
  have "distinct (map fst kes)" using d by (simp add: kes(1))
  with e have "map_of kes k = Some e" by simp
  moreover from e kes(2)
  have "and_then (js_String (object_get params k)) encodeURIComponent = Inr e"
    by (auto simp: encodes_values_def list_all_iff)
  ultimately show ?thesis using kes by blast
qed

lemma sendSMS_params_keys:
  "distinct (Object_keys (sendSMS_params this w phoneNumbers signName tplCode tplParam))"
  "js ''PhoneNumbers'' \<in> set (Object_keys (sendSMS_params this w phoneNumbers signName tplCode tplParam))"
  "object_get (sendSMS_params this w phoneNumbers signName tplCode tplParam) (js ''PhoneNumbers'')
     = Arr (map Str phoneNumbers)"
  by (simp_all add: sendSMS_params_def Let_def Object_keys_def object_get_def js_def split: option.splits)

text \<open>
  C6. In the canonical query string \<^verbatim>\<open>sendSMS\<close> builds for a list of phone numbers,
  the key \<^verbatim>\<open>PhoneNumbers\<close> has the percent-encoding of the numbers joined by commas
  (for every list, the empty one too).
\<close>

theorem C6_PhoneNumbers_joined:
  assumes "specParams (sendSMS_params this w phoneNumbers signName tplCode tplParam) = Inr s"
  shows "\<exists>kes e. s = render_query kes \<and>
           map fst kes = filter (\<lambda>k. k \<noteq> js ''Signature'')
             (sort (Object_keys (sendSMS_params this w phoneNumbers signName tplCode tplParam))) \<and>
           encodes_values (sendSMS_params this w phoneNumbers signName tplCode tplParam) kes \<and>
           map_of kes (js ''PhoneNumbers'') = Some e \<and>
           encodeURIComponent (join (js '','') phoneNumbers) = Inr e"
proof -
  have "js ''PhoneNumbers'' \<noteq> js ''Signature''" by (simp add: js_def)
  from specParams_maps_key [OF assms sendSMS_params_keys(1) sendSMS_params_keys(2) this]
  show ?thesis by (simp add: sendSMS_params_keys(3) js_String_elements_strings and_then_def)
qed

text \<open>Two numbers: the comma between them is written \<^verbatim>\<open>%2C\<close>.\<close>

theorem C6_witness:
  "\<exists>kes e.
     js (''AccessKeyId=testid&Action=SendSms&Format=JSON'' @
        ''&PhoneNumbers=13800000000%2C13900000000&SignName=shop&SignatureMethod=HMAC-SHA1'' @
        ''&SignatureNonce=1234567&SignatureVersion=1.0&TemplateCode=SMS_1&TemplateParam=%7B%7D'' @
        ''&Timestamp=2022-08-12T03%3A04%3A05.678Z&Version=2017-05-25'') = render_query kes \<and>
     map fst kes = filter (\<lambda>k. k \<noteq> js ''Signature'')
       (sort (Object_keys (sendSMS_params example_client (example_world Null)
          [js ''13800000000'', js ''13900000000''] (js ''shop'') (js ''SMS_1'') (Some (js ''{}''))))) \<and>
     encodes_values (sendSMS_params example_client (example_world Null)
          [js ''13800000000'', js ''13900000000''] (js ''shop'') (js ''SMS_1'') (Some (js ''{}''))) kes \<and>
     map_of kes (js ''PhoneNumbers'') = Some e \<and>
     encodeURIComponent (join (js '','') [js ''13800000000'', js ''13900000000'']) = Inr e"
  by (rule C6_PhoneNumbers_joined [OF example_send_canonical])

section \<open>The responses\<close>

lemma member_Obj: "member (Obj resp) k = Inr (object_get resp k)"
  by (simp add: member_def)

text \<open>
  C7. When the request of \<^verbatim>\<open>sendSMS\<close> is answered with a JSON object, the call returns
  normally: if \<^verbatim>\<open>Code\<close> is not the string \<^verbatim>\<open>OK\<close>, the result has \<^verbatim>\<open>code\<close>,
  \<^verbatim>\<open>message\<close> and \<^verbatim>\<open>requestID\<close> from the response and no \<^verbatim>\<open>bizID\<close>; if it is, the
  result has \<^verbatim>\<open>bizID\<close> too, from \<^verbatim>\<open>BizId\<close>.
\<close>

theorem C7_sendSMS_result:
  assumes "signed_get this w (sendSMS_params this w phoneNumbers signName tplCode tplParam)
             = Inr (Obj resp)"
  shows "sendSMS this w phoneNumbers signName tplCode tplParam =
     Inr (Obj (if object_get resp (js ''Code'') \<noteq> Str (js ''OK'') then
                 [(js ''code'', object_get resp (js ''Code'')),
                  (js ''message'', object_get resp (js ''Message'')),
                  (js ''requestID'', object_get resp (js ''RequestId''))]
               else
                 [(js ''code'', object_get resp (js ''Code'')),
                  (js ''message'', object_get resp (js ''Message'')),
                  (js ''requestID'', object_get resp (js ''RequestId'')),
                  (js ''bizID'', object_get resp (js ''BizId''))]))"
  by (simp add: sendSMS_def assms and_then_def sendSMS_response_def member_Obj)

text \<open>A rejected and an accepted message.\<close>

theorem C7_witness:
  "example_send (Obj [(js ''Code'', Str (js ''isv.BUSINESS_LIMIT_CONTROL'')),
                      (js ''Message'', Str (js ''limit'')),
                      (js ''RequestId'', Str (js ''r2''))])
     = Inr (Obj [(js ''code'', Str (js ''isv.BUSINESS_LIMIT_CONTROL'')),
                 (js ''message'', Str (js ''limit'')),
                 (js ''requestID'', Str (js ''r2''))]) \<and>
   example_send (Obj [(js ''Code'', Str (js ''OK'')),
                      (js ''Message'', Str (js ''OK'')),
                      (js ''RequestId'', Str (js ''r1'')),
                      (js ''BizId'', Str (js ''b1''))])
     = Inr (Obj [(js ''code'', Str (js ''OK'')),
                 (js ''message'', Str (js ''OK'')),
                 (js ''requestID'', Str (js ''r1'')),
                 (js ''bizID'', Str (js ''b1''))])"
  unfolding example_send_def C7_sendSMS_result [OF example_send_request]
  by (simp add: object_get_def js_def)

lemma map_elements_sendDetail:
  "map_elements sendDetail (map Obj records) =
     Inr (map (\<lambda>r. Obj [(js ''templateCode'', object_get r (js ''TemplateCode'')),
                         (js ''receiveDate'', object_get r (js ''ReceiveDate'')),
                         (js ''phoneNum'', object_get r (js ''PhoneNum'')),
                         (js ''content'', object_get r (js ''Content'')),
                         (js ''sendDate'', object_get r (js ''SendDate'')),
                         (js ''sendStatus'', object_get r (js ''SendStatus'')),
                         (js ''errCode'', object_get r (js ''ErrCode''))]) records)"
  by (induction records) (simp_all add: sendDetail_def and_then_def member_Obj)

lemma no_array_TypeError:
  assumes "\<forall>xs. member v (js ''SmsSendDetailDTO'') \<noteq> Inr (Arr xs)"
  shows "and_then (member v (js ''SmsSendDetailDTO'')) (\<lambda>detailsDTO.
           and_then (array_map sendDetail detailsDTO) f) = Inl TypeError"
proof (cases "member v (js ''SmsSendDetailDTO'')")
  case (Inl e)
  then have "e = TypeError" by (auto simp: member_def split: jsval.splits)
  with Inl show ?thesis by (simp add: and_then_def)
next
  case (Inr d)
  with assms have "\<forall>xs. d \<noteq> Arr xs" by simp
  then have "array_map sendDetail d = Inl TypeError"
    by (cases d) (simp_all add: array_map_def)
  with Inr show ?thesis by (simp add: and_then_def)
qed

text \<open>
  C8 as the specification words it does not hold: a response with \<^verbatim>\<open>Code\<close> equal to
  \<^verbatim>\<open>OK\<close> and no \<^verbatim>\<open>SmsSendDetailDTOs\<close> makes \<^verbatim>\<open>querySendDetails\<close> raise TypeError.
\<close>

theorem C8_missing_list_raises:
  "example_query (Obj [(js ''Code'', Str (js ''OK'')),
                       (js ''Message'', Str (js ''OK'')),
                       (js ''RequestId'', Str (js ''r1'')),
                       (js ''TotalCount'', Num 0)])
     = Inl TypeError"
  unfolding example_query_def querySendDetails_def example_query_request
  by (simp add: and_then_def querySendDetails_response_def member_def object_get_def js_def)

text \<open>
  C8, amended. When the request of \<^verbatim>\<open>querySendDetails\<close> is answered with a JSON object
  whose \<^verbatim>\<open>Code\<close> is \<^verbatim>\<open>OK\<close> and in which
  \<^verbatim>\<open>SmsSendDetailDTOs.SmsSendDetailDTO\<close> is not an array (either member is absent, or
  the value is something else), the call raises TypeError. When \<^verbatim>\<open>Code\<close> is not
  \<^verbatim>\<open>OK\<close>, the result has \<^verbatim>\<open>code\<close>, \<^verbatim>\<open>message\<close> and \<^verbatim>\<open>requestID\<close> and nothing
  else. And only then: whenever the call returns on a response whose \<^verbatim>\<open>Code\<close> is
  \<^verbatim>\<open>OK\<close>, the result carries \<^verbatim>\<open>totalCount\<close> and \<^verbatim>\<open>smsSendDetailDTOs\<close> with its list,
  so a result of the three fields alone means that \<^verbatim>\<open>Code\<close> was not \<^verbatim>\<open>OK\<close>.
\<close>

theorem C8_missing_list_TypeError:
  assumes "signed_get this w
             (querySendDetails_params this w phoneNumber sendDate pageSize currentPage bizID)
           = Inr (Obj resp)"
  shows "(object_get resp (js ''Code'') = Str (js ''OK'') \<and>
          (\<forall>xs. member (object_get resp (js ''SmsSendDetailDTOs'')) (js ''SmsSendDetailDTO'')
                  \<noteq> Inr (Arr xs)) \<longrightarrow>
            querySendDetails this w phoneNumber sendDate pageSize currentPage bizID
              = Inl TypeError) \<and>
         (object_get resp (js ''Code'') \<noteq> Str (js ''OK'') \<longrightarrow>
            querySendDetails this w phoneNumber sendDate pageSize currentPage bizID
              = Inr (Obj [(js ''code'', object_get resp (js ''Code'')),
                          (js ''message'', object_get resp (js ''Message'')),
                          (js ''requestID'', object_get resp (js ''RequestId''))])) \<and>
         (object_get resp (js ''Code'') = Str (js ''OK'') \<longrightarrow>
            (\<forall>r. querySendDetails this w phoneNumber sendDate pageSize currentPage bizID = Inr r
               \<longrightarrow>
               (\<exists>details.
                  r = Obj [(js ''code'', object_get resp (js ''Code'')),
                           (js ''message'', object_get resp (js ''Message'')),
                           (js ''requestID'', object_get resp (js ''RequestId'')),
                           (js ''totalCount'', object_get resp (js ''TotalCount'')),
                           (js ''smsSendDetailDTOs'',
                              Obj [(js ''smsSendDetailDTO'', Arr details)])]))) \<and>
         ((\<exists>c m i. querySendDetails this w phoneNumber sendDate pageSize currentPage bizID
              = Inr (Obj [(js ''code'', c), (js ''message'', m), (js ''requestID'', i)])) \<longrightarrow>
            object_get resp (js ''Code'') \<noteq> Str (js ''OK''))"
proof -
  let ?query = "querySendDetails this w phoneNumber sendDate pageSize currentPage bizID"
  let ?five = "\<lambda>details.
     Obj [(js ''code'', object_get resp (js ''Code'')),
          (js ''message'', object_get resp (js ''Message'')),
          (js ''requestID'', object_get resp (js ''RequestId'')),
          (js ''totalCount'', object_get resp (js ''TotalCount'')),
          (js ''smsSendDetailDTOs'', Obj [(js ''smsSendDetailDTO'', Arr details)])]"
  have rejected: "?query
      = Inr (Obj [(js ''code'', object_get resp (js ''Code'')),
                  (js ''message'', object_get resp (js ''Message'')),
                  (js ''requestID'', object_get resp (js ''RequestId''))])"
    if "object_get resp (js ''Code'') \<noteq> Str (js ''OK'')"
    using that
    by (simp add: querySendDetails_def assms querySendDetails_response_def member_Obj and_then_def)
  have success: "?query =
      and_then (member (object_get resp (js ''SmsSendDetailDTOs'')) (js ''SmsSendDetailDTO''))
        (\<lambda>detailsDTO. and_then (array_map sendDetail detailsDTO)
           (\<lambda>details.
              Inr (Obj [(js ''code'', object_get resp (js ''Code'')),
                        (js ''message'', object_get resp (js ''Message'')),
                        (js ''requestID'', object_get resp (js ''RequestId'')),
                        (js ''totalCount'', object_get resp (js ''TotalCount'')),
                        (js ''smsSendDetailDTOs'', Obj [(js ''smsSendDetailDTO'', details)])])))"
    if "object_get resp (js ''Code'') = Str (js ''OK'')"
    using that
    by (simp add: querySendDetails_def assms querySendDetails_response_def member_Obj
        and_then_def [of "Inr x" for x])
  have raises: "?query = Inl TypeError"
    if "object_get resp (js ''Code'') = Str (js ''OK'')"
      and "\<forall>xs. member (object_get resp (js ''SmsSendDetailDTOs'')) (js ''SmsSendDetailDTO'')
              \<noteq> Inr (Arr xs)"
    using that by (simp add: success no_array_TypeError)
  have five: "\<exists>details. r = ?five details"
    if ok: "object_get resp (js ''Code'') = Str (js ''OK'')" and r: "?query = Inr r" for r
  proof -
    from r obtain detailsDTO ds where
      "array_map sendDetail detailsDTO = Inr ds"
      "r = Obj [(js ''code'', object_get resp (js ''Code'')),
                (js ''message'', object_get resp (js ''Message'')),
                (js ''requestID'', object_get resp (js ''RequestId'')),
                (js ''totalCount'', object_get resp (js ''TotalCount'')),
                (js ''smsSendDetailDTOs'', Obj [(js ''smsSendDetailDTO'', ds)])]"
      unfolding success [OF ok] and_then_Inr_iff by blast
    moreover from this(1) obtain details where "ds = Arr details"
      by (auto simp: array_map_def split: jsval.splits sum.splits)
    ultimately show ?thesis by blast
  qed
  have three: "object_get resp (js ''Code'') \<noteq> Str (js ''OK'')"
    if "\<exists>c m i. ?query = Inr (Obj [(js ''code'', c), (js ''message'', m), (js ''requestID'', i)])"
  proof
    assume ok: "object_get resp (js ''Code'') = Str (js ''OK'')"
    from that obtain c m i
      where q: "?query = Inr (Obj [(js ''code'', c), (js ''message'', m), (js ''requestID'', i)])"
      by blast
    from five [OF ok q] show False by simp
  qed
  from raises rejected five three show ?thesis by blast
qed

text \<open>
  A success response where \<^verbatim>\<open>SmsSendDetailDTOs\<close> is there without its list, a rejected
  query, and a success response with an empty list.
\<close>

theorem C8_witness:
  "example_query (Obj [(js ''Code'', Str (js ''OK'')),
                       (js ''Message'', Str (js ''OK'')),
                       (js ''RequestId'', Str (js ''r1'')),
                       (js ''SmsSendDetailDTOs'', Obj [])])
     = Inl TypeError \<and>
   example_query (Obj [(js ''Code'', Str (js ''isv.MOBILE_NUMBER_ILLEGAL'')),
                       (js ''Message'', Str (js ''bad number'')),
                       (js ''RequestId'', Str (js ''r2''))])
     = Inr (Obj [(js ''code'', Str (js ''isv.MOBILE_NUMBER_ILLEGAL'')),
                 (js ''message'', Str (js ''bad number'')),
                 (js ''requestID'', Str (js ''r2''))]) \<and>
   (\<exists>details.
      example_query (Obj [(js ''Code'', Str (js ''OK'')),
                          (js ''Message'', Str (js ''OK'')),
                          (js ''RequestId'', Str (js ''r3'')),
                          (js ''TotalCount'', Num 0),
                          (js ''SmsSendDetailDTOs'', Obj [(js ''SmsSendDetailDTO'', Arr [])])])
        = Inr (Obj [(js ''code'', Str (js ''OK'')),
                    (js ''message'', Str (js ''OK'')),
                    (js ''requestID'', Str (js ''r3'')),
                    (js ''totalCount'', Num 0),
                    (js ''smsSendDetailDTOs'', Obj [(js ''smsSendDetailDTO'', Arr details)])]))"
proof (intro conjI)
  show "example_query (Obj [(js ''Code'', Str (js ''OK'')),
                       (js ''Message'', Str (js ''OK'')),
                       (js ''RequestId'', Str (js ''r1'')),
                       (js ''SmsSendDetailDTOs'', Obj [])])
     = Inl TypeError"
    unfolding example_query_def
    using C8_missing_list_TypeError [OF example_query_request, THEN conjunct1]
    by (simp add: object_get_def member_def js_def)
  show "example_query (Obj [(js ''Code'', Str (js ''isv.MOBILE_NUMBER_ILLEGAL'')),
                       (js ''Message'', Str (js ''bad number'')),
                       (js ''RequestId'', Str (js ''r2''))])
     = Inr (Obj [(js ''code'', Str (js ''isv.MOBILE_NUMBER_ILLEGAL'')),
                 (js ''message'', Str (js ''bad number'')),
                 (js ''requestID'', Str (js ''r2''))])"
    unfolding example_query_def
    using C8_missing_list_TypeError [OF example_query_request, THEN conjunct2, THEN conjunct1]
    by (simp add: object_get_def js_def)
  let ?body = "Obj [(js ''Code'', Str (js ''OK'')),
                    (js ''Message'', Str (js ''OK'')),
                    (js ''RequestId'', Str (js ''r3'')),
                    (js ''TotalCount'', Num 0),
                    (js ''SmsSendDetailDTOs'', Obj [(js ''SmsSendDetailDTO'', Arr [])])]"
  have "\<exists>r. example_query ?body = Inr r"
    unfolding example_query_def querySendDetails_def example_query_request
    by (simp add: and_then_def querySendDetails_response_def member_def object_get_def
        array_map_def js_def)
  then obtain r where r: "example_query ?body = Inr r"
    by blast
  from C8_missing_list_TypeError [OF example_query_request, THEN conjunct2, THEN conjunct2,
      THEN conjunct1, rule_format, OF _ r [unfolded example_query_def]]
  have "\<exists>details.
      r = Obj [(js ''code'', Str (js ''OK'')),
               (js ''message'', Str (js ''OK'')),
               (js ''requestID'', Str (js ''r3'')),
               (js ''totalCount'', Num 0),
               (js ''smsSendDetailDTOs'', Obj [(js ''smsSendDetailDTO'', Arr details)])]"
    by (simp add: object_get_def js_def)
  with r show "\<exists>details.
      example_query ?body
        = Inr (Obj [(js ''code'', Str (js ''OK'')),
                    (js ''message'', Str (js ''OK'')),
                    (js ''requestID'', Str (js ''r3'')),
                    (js ''totalCount'', Num 0),
                    (js ''smsSendDetailDTOs'', Obj [(js ''smsSendDetailDTO'', Arr details)])])"
    by simp
qed

text \<open>
  C9. When the request of \<^verbatim>\<open>querySendDetails\<close> is answered with a JSON object whose
  \<^verbatim>\<open>Code\<close> is \<^verbatim>\<open>OK\<close> and whose \<^verbatim>\<open>SmsSendDetailDTOs.SmsSendDetailDTO\<close> is an array of
  records, the result carries one entry for each record, in the same order, with the seven
  members of the record under their new names; \<^verbatim>\<open>sendStatus\<close> is the value of
  \<^verbatim>\<open>SendStatus\<close>, unchanged.
\<close>

theorem C9_details_mapped:
  assumes "signed_get this w
             (querySendDetails_params this w phoneNumber sendDate pageSize currentPage bizID)
           = Inr (Obj resp)"
    and "object_get resp (js ''Code'') = Str (js ''OK'')"
    and "object_get resp (js ''SmsSendDetailDTOs'') = Obj dtos"
    and "object_get dtos (js ''SmsSendDetailDTO'') = Arr (map Obj records)"
  shows "querySendDetails this w phoneNumber sendDate pageSize currentPage bizID =
     Inr (Obj [(js ''code'', Str (js ''OK'')),
               (js ''message'', object_get resp (js ''Message'')),
               (js ''requestID'', object_get resp (js ''RequestId'')),
               (js ''totalCount'', object_get resp (js ''TotalCount'')),
               (js ''smsSendDetailDTOs'',
                  Obj [(js ''smsSendDetailDTO'',
                     Arr (map (\<lambda>r. Obj [(js ''templateCode'', object_get r (js ''TemplateCode'')),
                                         (js ''receiveDate'', object_get r (js ''ReceiveDate'')),
                                         (js ''phoneNum'', object_get r (js ''PhoneNum'')),
                                         (js ''content'', object_get r (js ''Content'')),
                                         (js ''sendDate'', object_get r (js ''SendDate'')),
                                         (js ''sendStatus'', object_get r (js ''SendStatus'')),
                                         (js ''errCode'', object_get r (js ''ErrCode''))])
                            records))])])"
  by (simp add: querySendDetails_def assms querySendDetails_response_def member_Obj and_then_def
      array_map_def map_elements_sendDetail)

text \<open>One record, with status 3.\<close>

theorem C9_witness:
  "example_query (Obj [(js ''Code'', Str (js ''OK'')),
                       (js ''Message'', Str (js ''OK'')),
                       (js ''RequestId'', Str (js ''r1'')),
                       (js ''TotalCount'', Num 1),
                       (js ''SmsSendDetailDTOs'',
                          Obj [(js ''SmsSendDetailDTO'', Arr [Obj example_record])])])
     = Inr (Obj [(js ''code'', Str (js ''OK'')),
                 (js ''message'', Str (js ''OK'')),
                 (js ''requestID'', Str (js ''r1'')),
                 (js ''totalCount'', Num 1),
                 (js ''smsSendDetailDTOs'',
                    Obj [(js ''smsSendDetailDTO'',
                       Arr [Obj [(js ''templateCode'', Str (js ''SMS_1'')),
                                 (js ''receiveDate'', Str (js ''2022-08-12 11:04:09'')),
                                 (js ''phoneNum'', Str (js ''13800000000'')),
                                 (js ''content'', Str (js ''hello'')),
                                 (js ''sendDate'', Str (js ''2022-08-12 11:04:05'')),
                                 (js ''sendStatus'', Num 3),
                                 (js ''errCode'', Str (js ''DELIVERED''))]])])])"
  unfolding example_query_def
  using C9_details_mapped [OF example_query_request, of _ 
      "[(js ''SmsSendDetailDTO'', Arr [Obj example_record])]" "[example_record]"]
  by (simp add: object_get_def example_record_def js_def)

text \<open>
  C10. An empty \<^verbatim>\<open>tplParam\<close> gives \<^verbatim>\<open>sendSMS\<close> the parameters, and so the result, of
  an omitted one: the key \<^verbatim>\<open>TemplateParam\<close> is there exactly when \<^verbatim>\<open>tplParam\<close> is a
  string that is not empty. The same holds of \<^verbatim>\<open>bizID\<close> and the key \<^verbatim>\<open>BizID\<close> in
  \<^verbatim>\<open>querySendDetails\<close>.
\<close>

theorem C10_empty_is_absent:
  "sendSMS_params this w phoneNumbers signName tplCode (Some [])
     = sendSMS_params this w phoneNumbers signName tplCode None \<and>
   (js ''TemplateParam'' \<in> set (Object_keys (sendSMS_params this w phoneNumbers signName tplCode tplParam))
      \<longleftrightarrow> (\<exists>s. tplParam = Some s \<and> s \<noteq> [])) \<and>
   sendSMS this w phoneNumbers signName tplCode (Some [])
     = sendSMS this w phoneNumbers signName tplCode None \<and>
   querySendDetails_params this w phoneNumber sendDate pageSize currentPage (Some [])
     = querySendDetails_params this w phoneNumber sendDate pageSize currentPage None \<and>
   (js ''BizID'' \<in> set (Object_keys
        (querySendDetails_params this w phoneNumber sendDate pageSize currentPage bizID))
      \<longleftrightarrow> (\<exists>s. bizID = Some s \<and> s \<noteq> [])) \<and>
   querySendDetails this w phoneNumber sendDate pageSize currentPage (Some [])
     = querySendDetails this w phoneNumber sendDate pageSize currentPage None"
proof -
  have 1: "sendSMS_params this w phoneNumbers signName tplCode (Some [])
     = sendSMS_params this w phoneNumbers signName tplCode None"
    by (simp add: sendSMS_params_def)
  have 2: "querySendDetails_params this w phoneNumber sendDate pageSize currentPage (Some [])
     = querySendDetails_params this w phoneNumber sendDate pageSize currentPage None"
    by (simp add: querySendDetails_params_def)
  have 3: "js ''TemplateParam'' \<in> set (Object_keys (sendSMS_params this w phoneNumbers signName tplCode tplParam))
      \<longleftrightarrow> (\<exists>s. tplParam = Some s \<and> s \<noteq> [])"
    by (cases tplParam) (simp_all add: sendSMS_params_def Let_def Object_keys_def js_def)
  have 4: "js ''BizID'' \<in> set (Object_keys
        (querySendDetails_params this w phoneNumber sendDate pageSize currentPage bizID))
      \<longleftrightarrow> (\<exists>s. bizID = Some s \<and> s \<noteq> [])"
    by (cases bizID) (simp_all add: querySendDetails_params_def Let_def Object_keys_def js_def)
  show ?thesis
    by (simp only: 1 2 3 4 sendSMS_def querySendDetails_def)
qed

end
